theory Spec2Isabelle
  imports Main "HOL-Library.Word"
begin

section \<open>The wire: bytes, fixed-width integers, message tags\<close>

text \<open>
  The bridge (\<^verbatim>\<open>src/oidbridge/oid_bridge.cpp\<close>) talks to the UI process over one TCP
  socket. A byte of the stream is an 8-bit word; a \<^verbatim>\<open>std::string\<close> is a sequence of
  bytes (it may hold any byte, it is not null-terminated on the wire); the pixel buffer
  (\<^verbatim>\<open>const uint8_t*\<close> with its length) is a sequence of bytes as well.
\<close>

type_synonym byte = "8 word"
type_synonym std_string = "byte list"

text \<open>
  Modelled from the spec: the byte layout of a fixed-width integer. The classes
  \<^verbatim>\<open>MessageComposer\<close> and \<^verbatim>\<open>MessageDecoder\<close> (\<^verbatim>\<open>ipc/message_exchange.h\<close>) are not among
  the sources; the spec says that every primitive is written with its natural byte
  width, without padding. \<open>le_bytes k n\<close> is the \<open>k\<close>-byte image of \<open>n\<close> in host byte
  order (little-endian; the value is cut to \<open>k\<close> bytes as a C++ conversion to the
  unsigned type of that width does), and \<open>le_nat\<close> reads such an image back.
\<close>

definition le_bytes :: "nat \<Rightarrow> nat \<Rightarrow> byte list" where
  "le_bytes k n = map (\<lambda>i. of_nat (n div 256 ^ i)) [0..<k]"

fun le_nat :: "byte list \<Rightarrow> nat" where
  "le_nat [] = 0"
| "le_nat (b # bs) = unat b + 256 * le_nat bs"

text \<open>
  The message kinds, as the source names them (\<^verbatim>\<open>MessageType::GetObservedSymbols\<close>, ...).
\<close>

datatype MessageType =
    GetObservedSymbols
  | GetObservedSymbolsResponse
  | SetAvailableSymbols
  | PlotBufferContents
  | PlotBufferRequest

text \<open>
  Modelled from the spec: the numeric value of each enumerator and the width of the tag.
  The declaration of \<^verbatim>\<open>enum class MessageType\<close> is not among the sources; the spec calls
  the tag a fixed-width enumeration with stable numeric values and fixes none. The tag is
  taken as 4 bytes wide (a scoped enumeration without a stated base is an \<^verbatim>\<open>int\<close>) and the
  enumerators are numbered from 0; the theorems below use only that the five values differ.
\<close>

fun tag_of :: "MessageType \<Rightarrow> nat" where
  "tag_of GetObservedSymbols = 0"
| "tag_of GetObservedSymbolsResponse = 1"
| "tag_of SetAvailableSymbols = 2"
| "tag_of PlotBufferContents = 3"
| "tag_of PlotBufferRequest = 4"

definition sizeof_header :: nat where
  "sizeof_header = 4"

definition sizeof_size_t :: nat where
  "sizeof_size_t = 8"

text \<open>
  A header value read from the wire is any 32-bit number; \<open>header_type\<close> names the
  enumerator it equals, if any. This is the comparison the \<^verbatim>\<open>switch (header)\<close> makes.
\<close>

definition header_type :: "nat \<Rightarrow> MessageType option" where
  "header_type n =
     (if n = tag_of GetObservedSymbols then Some GetObservedSymbols
      else if n = tag_of GetObservedSymbolsResponse then Some GetObservedSymbolsResponse
      else if n = tag_of SetAvailableSymbols then Some SetAvailableSymbols
      else if n = tag_of PlotBufferContents then Some PlotBufferContents
      else if n = tag_of PlotBufferRequest then Some PlotBufferRequest
      else None)"

section \<open>MessageComposer and MessageDecoder\<close>

text \<open>
  Modelled from the spec: what each \<^verbatim>\<open>MessageComposer::push\<close> overload appends. Strings
  are length-prefixed (the length is a \<^verbatim>\<open>size_t\<close>), a sequence of strings is
  count-prefixed and followed by each length-prefixed string, a raw buffer is
  length-prefixed and copied verbatim, and the primitives (\<^verbatim>\<open>bool\<close>, \<^verbatim>\<open>int\<close>, the
  enumerations) take their natural width.
\<close>

definition push_size_t :: "nat \<Rightarrow> byte list" where
  "push_size_t n = le_bytes sizeof_size_t n"

definition push_MessageType :: "MessageType \<Rightarrow> byte list" where
  "push_MessageType t = le_bytes sizeof_header (tag_of t)"

definition push_bool :: "bool \<Rightarrow> byte list" where
  "push_bool b = [if b then 1 else 0]"

definition push_int :: "32 word \<Rightarrow> byte list" where
  "push_int w = le_bytes 4 (unat w)"

definition push_string :: "std_string \<Rightarrow> byte list" where
  "push_string s = push_size_t (length s) @ s"

definition push_strings :: "std_string list \<Rightarrow> byte list" where
  "push_strings xs = push_size_t (length xs) @ concat (map push_string xs)"

definition push_buffer :: "byte list \<Rightarrow> byte list" where
  "push_buffer p = push_size_t (length p) @ p"

text \<open>
  Modelled from the spec: the \<^verbatim>\<open>MessageDecoder::read\<close> overloads, as parsers of the bytes
  that are buffered. A read that needs more bytes than are buffered yields \<open>None\<close>: the
  spec only says that decoding never looks past the declared length, and what the
  decoder does while bytes are missing is not modelled.
\<close>

definition read_bytes :: "nat \<Rightarrow> byte list \<Rightarrow> (byte list \<times> byte list) option" where
  "read_bytes n bs = (if length bs < n then None else Some (take n bs, drop n bs))"

definition read_size_t :: "byte list \<Rightarrow> (nat \<times> byte list) option" where
  "read_size_t bs =
     (case read_bytes sizeof_size_t bs of
        None \<Rightarrow> None
      | Some (raw, rest) \<Rightarrow> Some (le_nat raw, rest))"

definition read_bool :: "byte list \<Rightarrow> (bool \<times> byte list) option" where
  "read_bool bs =
     (case read_bytes 1 bs of
        None \<Rightarrow> None
      | Some (raw, rest) \<Rightarrow> Some (le_nat raw \<noteq> 0, rest))"

definition read_int :: "byte list \<Rightarrow> (32 word \<times> byte list) option" where
  "read_int bs =
     (case read_bytes 4 bs of
        None \<Rightarrow> None
      | Some (raw, rest) \<Rightarrow> Some (of_nat (le_nat raw), rest))"

definition read_string :: "byte list \<Rightarrow> (std_string \<times> byte list) option" where
  "read_string bs =
     (case read_size_t bs of
        None \<Rightarrow> None
      | Some (n, rest) \<Rightarrow> read_bytes n rest)"

fun read_n_strings :: "nat \<Rightarrow> byte list \<Rightarrow> (std_string list \<times> byte list) option" where
  "read_n_strings 0 bs = Some ([], bs)"
| "read_n_strings (Suc k) bs =
     (case read_string bs of
        None \<Rightarrow> None
      | Some (s, rest) \<Rightarrow>
          (case read_n_strings k rest of
             None \<Rightarrow> None
           | Some (ss, rest') \<Rightarrow> Some (s # ss, rest')))"

definition read_strings :: "byte list \<Rightarrow> (std_string list \<times> byte list) option" where
  "read_strings bs =
     (case read_size_t bs of
        None \<Rightarrow> None
      | Some (n, rest) \<Rightarrow> read_n_strings n rest)"

definition read_buffer :: "byte list \<Rightarrow> (byte list \<times> byte list) option" where
  "read_buffer bs =
     (case read_size_t bs of
        None \<Rightarrow> None
      | Some (n, rest) \<Rightarrow> read_bytes n rest)"

definition read_MessageType :: "byte list \<Rightarrow> (MessageType \<times> byte list) option" where
  "read_MessageType bs =
     (case read_bytes sizeof_header bs of
        None \<Rightarrow> None
      | Some (raw, rest) \<Rightarrow>
          (case header_type (le_nat raw) of
             None \<Rightarrow> None
           | Some t \<Rightarrow> Some (t, rest)))"

section \<open>Messages\<close>

text \<open>
  The payload of a \<^verbatim>\<open>PlotBufferContents\<close> message: the arguments of
  \<^verbatim>\<open>OidBridge::plot_buffer\<close>, in their order. The four dimensions are C++ \<^verbatim>\<open>int\<close>s; the
  element type is the enumeration \<^verbatim>\<open>BufferType\<close>, kept as the 32-bit value the boundary
  casts it from and written to the wire as an \<^verbatim>\<open>int\<close> is. \<open>buff\<close> stands for the
  \<^verbatim>\<open>buff_length\<close> bytes at \<^verbatim>\<open>buff_ptr\<close>.
\<close>

record PlotBuffer =
  variable_name_str :: std_string
  display_name_str :: std_string
  pixel_layout_str :: std_string
  transpose_buffer :: bool
  buff_width :: "32 word"
  buff_height :: "32 word"
  buff_channels :: "32 word"
  buff_stride :: "32 word"
  buff_type :: "32 word"
  buff :: "byte list"

text \<open>One case per message kind, each with its payload (the spec's tagged variant).\<close>

datatype Message =
    MsgGetObservedSymbols
  | MsgGetObservedSymbolsResponse "std_string list"
  | MsgSetAvailableSymbols "std_string list"
  | MsgPlotBufferContents PlotBuffer
  | MsgPlotBufferRequest std_string

text \<open>
  The bytes the host composes: the three \<^verbatim>\<open>push\<close> chains of
  \<^verbatim>\<open>get_observed_symbols\<close>, \<^verbatim>\<open>set_available_symbols\<close> and \<^verbatim>\<open>plot_buffer\<close>.
\<close>

definition compose_get_observed_symbols :: "byte list" where
  "compose_get_observed_symbols = push_MessageType GetObservedSymbols"

definition compose_set_available_symbols :: "std_string list \<Rightarrow> byte list" where
  "compose_set_available_symbols available_vars =
     push_MessageType SetAvailableSymbols @ push_strings available_vars"

definition compose_plot_buffer :: "PlotBuffer \<Rightarrow> byte list" where
  "compose_plot_buffer p =
     push_MessageType PlotBufferContents
     @ push_string (variable_name_str p)
     @ push_string (display_name_str p)
     @ push_string (pixel_layout_str p)
     @ push_bool (transpose_buffer p)
     @ push_int (buff_width p)
     @ push_int (buff_height p)
     @ push_int (buff_channels p)
     @ push_int (buff_stride p)
     @ push_int (buff_type p)
     @ push_buffer (buff p)"

text \<open>
  Modelled from the spec: the two messages the UI process composes (its code is not among
  the sources): the tag, then the payload in declaration order.
\<close>

fun encode :: "Message \<Rightarrow> byte list" where
  "encode MsgGetObservedSymbols = compose_get_observed_symbols"
| "encode (MsgGetObservedSymbolsResponse xs) =
     push_MessageType GetObservedSymbolsResponse @ push_strings xs"
| "encode (MsgSetAvailableSymbols xs) = compose_set_available_symbols xs"
| "encode (MsgPlotBufferContents p) = compose_plot_buffer p"
| "encode (MsgPlotBufferRequest s) = push_MessageType PlotBufferRequest @ push_string s"

text \<open>
  Modelled from the spec: the decoder of a \<^verbatim>\<open>PlotBufferContents\<close> payload, which runs in
  the UI process: the fields are read in the order they were pushed.
\<close>

definition read_plot_buffer :: "byte list \<Rightarrow> (PlotBuffer \<times> byte list) option" where
  "read_plot_buffer bs0 =
     (case read_string bs0 of None \<Rightarrow> None | Some (vn, bs1) \<Rightarrow>
     (case read_string bs1 of None \<Rightarrow> None | Some (dn, bs2) \<Rightarrow>
     (case read_string bs2 of None \<Rightarrow> None | Some (pl, bs3) \<Rightarrow>
     (case read_bool bs3 of None \<Rightarrow> None | Some (tr, bs4) \<Rightarrow>
     (case read_int bs4 of None \<Rightarrow> None | Some (w, bs5) \<Rightarrow>
     (case read_int bs5 of None \<Rightarrow> None | Some (h, bs6) \<Rightarrow>
     (case read_int bs6 of None \<Rightarrow> None | Some (c, bs7) \<Rightarrow>
     (case read_int bs7 of None \<Rightarrow> None | Some (st, bs8) \<Rightarrow>
     (case read_int bs8 of None \<Rightarrow> None | Some (ty, bs9) \<Rightarrow>
     (case read_buffer bs9 of None \<Rightarrow> None | Some (data, bs10) \<Rightarrow>
        Some (\<lparr>variable_name_str = vn, display_name_str = dn, pixel_layout_str = pl,
               transpose_buffer = tr, buff_width = w, buff_height = h,
               buff_channels = c, buff_stride = st, buff_type = ty, buff = data\<rparr>,
              bs10)))))))))))"

text \<open>
  \<open>decode_one tag bytes\<close>: the payload of the message kind \<open>tag\<close>, read from the front of
  \<open>bytes\<close>, with the bytes that follow it. The cases for \<^verbatim>\<open>PlotBufferRequest\<close> and
  \<^verbatim>\<open>GetObservedSymbolsResponse\<close> are the source's \<^verbatim>\<open>decode_plot_buffer_request\<close> and
  \<^verbatim>\<open>decode_get_observed_symbols_response\<close>.
\<close>

fun decode_one :: "MessageType \<Rightarrow> byte list \<Rightarrow> (Message \<times> byte list) option" where
  "decode_one GetObservedSymbols bs = Some (MsgGetObservedSymbols, bs)"
| "decode_one GetObservedSymbolsResponse bs =
     (case read_strings bs of
        None \<Rightarrow> None
      | Some (xs, rest) \<Rightarrow> Some (MsgGetObservedSymbolsResponse xs, rest))"
| "decode_one SetAvailableSymbols bs =
     (case read_strings bs of
        None \<Rightarrow> None
      | Some (xs, rest) \<Rightarrow> Some (MsgSetAvailableSymbols xs, rest))"
| "decode_one PlotBufferContents bs =
     (case read_plot_buffer bs of
        None \<Rightarrow> None
      | Some (p, rest) \<Rightarrow> Some (MsgPlotBufferContents p, rest))"
| "decode_one PlotBufferRequest bs =
     (case read_string bs of
        None \<Rightarrow> None
      | Some (s, rest) \<Rightarrow> Some (MsgPlotBufferRequest s, rest))"

definition decode :: "byte list \<Rightarrow> (Message \<times> byte list) option" where
  "decode bs =
     (case read_MessageType bs of
        None \<Rightarrow> None
      | Some (t, rest) \<Rightarrow> decode_one t rest)"

text \<open>
  A message is valid when every length it carries fits the \<^verbatim>\<open>size_t\<close> that prefixes it.
\<close>

definition valid_string :: "std_string \<Rightarrow> bool" where
  "valid_string s = (length s < 2 ^ 64)"

definition valid_strings :: "std_string list \<Rightarrow> bool" where
  "valid_strings xs = (length xs < 2 ^ 64 \<and> list_all valid_string xs)"

fun valid_message :: "Message \<Rightarrow> bool" where
  "valid_message MsgGetObservedSymbols = True"
| "valid_message (MsgGetObservedSymbolsResponse xs) = valid_strings xs"
| "valid_message (MsgSetAvailableSymbols xs) = valid_strings xs"
| "valid_message (MsgPlotBufferContents p) =
     (valid_string (variable_name_str p) \<and> valid_string (display_name_str p)
      \<and> valid_string (pixel_layout_str p) \<and> valid_string (buff p))"
| "valid_message (MsgPlotBufferRequest s) = valid_string s"

section \<open>The socket and the UI process\<close>

text \<open>
  The client socket (\<^verbatim>\<open>QTcpSocket\<close>) as the bridge sees it: \<open>rx\<close> holds the bytes
  that are buffered for reading (\<^verbatim>\<open>bytesAvailable()\<close> is its length), \<open>arriving\<close> the
  chunks still on their way, each with the milliseconds of waiting after which it is
  there, and \<open>tx\<close> the bytes written so far. Time passes only inside a wait.
\<close>

record QTcpSocket =
  rx :: "byte list"
  arriving :: "(nat \<times> byte list) list"
  tx :: "byte list"

definition bytesAvailable :: "QTcpSocket \<Rightarrow> nat" where
  "bytesAvailable s = length (rx s)"

text \<open>
  \<^verbatim>\<open>waitForReadyRead(msecs)\<close> blocks until new data has arrived or \<open>msecs\<close> have
  passed: the next chunk is buffered if it is due within the wait, otherwise the wait
  times out and the chunk is that much nearer.
\<close>

definition waitForReadyRead :: "nat \<Rightarrow> QTcpSocket \<Rightarrow> QTcpSocket" where
  "waitForReadyRead msecs s =
     (case arriving s of
        [] \<Rightarrow> s
      | (d, c) # rest \<Rightarrow>
          if d \<le> msecs then s\<lparr>rx := rx s @ c, arriving := rest\<rparr>
          else s\<lparr>arriving := (d - msecs, c) # rest\<rparr>)"

text \<open>\<^verbatim>\<open>read(dst, maxSize)\<close> takes at most \<open>maxSize\<close> buffered bytes.\<close>

definition sock_read :: "nat \<Rightarrow> QTcpSocket \<Rightarrow> byte list \<times> QTcpSocket" where
  "sock_read n s = (take n (rx s), s\<lparr>rx := drop n (rx s)\<rparr>)"

text \<open>
  Modelled from the spec: \<^verbatim>\<open>MessageComposer::send(socket)\<close> writes the composed bytes
  to the socket, in order.
\<close>

definition send :: "byte list \<Rightarrow> QTcpSocket \<Rightarrow> QTcpSocket" where
  "send bs s = s\<lparr>tx := tx s @ bs\<rparr>"

text \<open>The bytes that are buffered or still to arrive.\<close>

definition pending_bytes :: "QTcpSocket \<Rightarrow> nat" where
  "pending_bytes s = length (rx s) + sum_list (map (\<lambda>c. length (snd c)) (arriving s))"

text \<open>No chunk becomes readable within a wait of \<open>msecs\<close>.\<close>

definition quiet :: "nat \<Rightarrow> QTcpSocket \<Rightarrow> bool" where
  "quiet msecs s = (case arriving s of [] \<Rightarrow> True | (d, c) # rest \<Rightarrow> msecs < d)"

text \<open>
  Modelled from the spec: the class \<^verbatim>\<open>Process\<close> (\<^verbatim>\<open>system/process/process.h\<close>) is
  not among the sources. The spec gives it \<^verbatim>\<open>spawn\<close>, \<^verbatim>\<open>is_running\<close> and an
  unconditional, idempotent \<^verbatim>\<open>kill\<close>. Whether the spawn succeeds is the environment's
  choice (\<open>can_spawn\<close>).
\<close>

record Process =
  running :: bool
  command :: "string list"

definition Process_start :: "bool \<Rightarrow> string list \<Rightarrow> Process \<Rightarrow> Process" where
  "Process_start can_spawn cmd p = p\<lparr>running := can_spawn, command := cmd\<rparr>"

definition isRunning :: "Process \<Rightarrow> bool" where
  "isRunning p = running p"

definition kill :: "Process \<Rightarrow> Process" where
  "kill p = p\<lparr>running := False\<rparr>"

record QTcpServer =
  isListening :: bool
  serverPort :: nat

text \<open>
  What the environment decides during one \<^verbatim>\<open>start()\<close>: whether the server can bind and
  to which port, whether the UI process can be spawned, and the peer that connects, if
  any, with the milliseconds it takes to do so.
\<close>

record start_env =
  can_bind :: bool
  bound_port :: nat
  can_spawn :: bool
  connecting :: "(nat \<times> QTcpSocket) option"

definition waitForNewConnection :: "nat \<Rightarrow> start_env \<Rightarrow> bool" where
  "waitForNewConnection msecs env =
     (case connecting env of None \<Rightarrow> False | Some (d, s) \<Rightarrow> d \<le> msecs)"

definition nextPendingConnection :: "nat \<Rightarrow> start_env \<Rightarrow> QTcpSocket option" where
  "nextPendingConnection waited env =
     (case connecting env of
        None \<Rightarrow> None
      | Some (d, s) \<Rightarrow> if d \<le> waited then Some s else None)"

text \<open>\<^verbatim>\<open>std::to_string\<close> of the port: its decimal digits.\<close>

fun to_string :: "nat \<Rightarrow> string" where
  "to_string n =
     (if n < 10 then [''0123456789'' ! n]
      else to_string (n div 10) @ [''0123456789'' ! (n mod 10)])"

declare to_string.simps [simp del]

section \<open>The bridge\<close>

text \<open>
  The two messages the UI process sends, as the source declares them
  (\<^verbatim>\<open>GetObservedSymbolsResponseMessage\<close>, \<^verbatim>\<open>PlotBufferRequestMessage\<close>).
\<close>

datatype UiMessage =
    GetObservedSymbolsResponseMessage "std_string list"
  | PlotBufferRequestMessage std_string

text \<open>
  The members of \<^verbatim>\<open>class OidBridge\<close> (without the trailing underscore of their names).
  \<open>client\<close> is the pointer \<^verbatim>\<open>client_\<close>: \<open>None\<close> is \<^verbatim>\<open>nullptr\<close>. \<open>received_messages\<close> is
  the inbox, a \<^verbatim>\<open>std::map\<close> from message type to one stored message. Two fields record
  what the bridge does to the outside: \<open>cerr\<close> the lines written to \<^verbatim>\<open>std::cerr\<close>, and
  \<open>plot_calls\<close> the arguments of the calls of the host's \<^verbatim>\<open>plot_callback_\<close>, in order.
\<close>

record OidBridge =
  ui_proc :: Process
  server :: QTcpServer
  client :: "QTcpSocket option"
  oid_path :: string
  received_messages :: "MessageType \<rightharpoonup> UiMessage"
  cerr :: "string list"
  plot_calls :: "std_string list"

text \<open>The bridge as its constructor leaves it.\<close>

definition new_OidBridge :: OidBridge where
  "new_OidBridge =
     \<lparr>ui_proc = \<lparr>running = False, command = []\<rparr>,
      server = \<lparr>isListening = False, serverPort = 0\<rparr>,
      client = None, oid_path = [], received_messages = Map.empty,
      cerr = [], plot_calls = []\<rparr>"

text \<open>
  How a call can end without returning: a failed \<^verbatim>\<open>assert\<close>, the use of a null pointer,
  or a decoder that found fewer bytes buffered than the payload declares. The assertions
  of the source are taken as checked, as they are unless the build defines \<^verbatim>\<open>NDEBUG\<close>.
\<close>

datatype failure = AssertionFailed | NullDereference | DecoderStarved

definition try_get_stored_message ::
  "MessageType \<Rightarrow> OidBridge \<Rightarrow> UiMessage option \<times> OidBridge" where
  "try_get_stored_message msg_type b =
     (case received_messages b msg_type of
        Some result \<Rightarrow>
          (Some result, b\<lparr>received_messages := (received_messages b)(msg_type := None)\<rparr>)
      | None \<Rightarrow> (None, b))"

definition decode_plot_buffer_request :: "QTcpSocket \<Rightarrow> (UiMessage \<times> QTcpSocket) option" where
  "decode_plot_buffer_request s =
     (case read_string (rx s) of
        None \<Rightarrow> None
      | Some (buffer_name, rest) \<Rightarrow> Some (PlotBufferRequestMessage buffer_name, s\<lparr>rx := rest\<rparr>))"

definition decode_get_observed_symbols_response ::
  "QTcpSocket \<Rightarrow> (UiMessage \<times> QTcpSocket) option" where
  "decode_get_observed_symbols_response s =
     (case read_strings (rx s) of
        None \<Rightarrow> None
      | Some (observed_symbols, rest) \<Rightarrow>
          Some (GetObservedSymbolsResponseMessage observed_symbols, s\<lparr>rx := rest\<rparr>))"

text \<open>
  One pass through the body of the loop of \<^verbatim>\<open>try_read_incoming_messages\<close>, from the
  read of the header to the end of the \<^verbatim>\<open>switch\<close>. The header starts as zero and the read
  overwrites as many of its bytes as are buffered, at most \<^verbatim>\<open>sizeof(header)\<close>.
\<close>

definition dispatch_header :: "QTcpSocket \<Rightarrow> OidBridge \<Rightarrow> failure + (QTcpSocket \<times> OidBridge)" where
  "dispatch_header s b =
     (let (raw, s1) = sock_read sizeof_header s;
          header = le_nat raw
      in if header = tag_of PlotBufferRequest then
           (case decode_plot_buffer_request s1 of
              None \<Rightarrow> Inl DecoderStarved
            | Some (msg, s2) \<Rightarrow>
                Inr (s2, b\<lparr>received_messages := (received_messages b)(PlotBufferRequest \<mapsto> msg)\<rparr>))
         else if header = tag_of GetObservedSymbolsResponse then
           (case decode_get_observed_symbols_response s1 of
              None \<Rightarrow> Inl DecoderStarved
            | Some (msg, s2) \<Rightarrow>
                Inr (s2, b\<lparr>received_messages :=
                              (received_messages b)(GetObservedSymbolsResponse \<mapsto> msg)\<rparr>))
         else
           Inr (s1, b\<lparr>cerr := cerr b
                   @ [''[OpenImageDebugger] Received message with incorrect header'']\<rparr>))"

text \<open>
  The \<^verbatim>\<open>do ... while\<close> loop of \<^verbatim>\<open>try_read_incoming_messages\<close>: wait, stop when nothing is
  buffered, otherwise handle one header, and go round again while bytes are buffered.
\<close>

function try_read_loop ::
  "nat \<Rightarrow> QTcpSocket \<Rightarrow> OidBridge \<Rightarrow> failure + (QTcpSocket \<times> OidBridge)" where
  "try_read_loop msecs s b =
     (if bytesAvailable (waitForReadyRead msecs s) = 0 then Inr (waitForReadyRead msecs s, b)
      else
        (case dispatch_header (waitForReadyRead msecs s) b of
           Inl e \<Rightarrow> Inl e
         | Inr r \<Rightarrow>
             if bytesAvailable (fst r) > 0 then try_read_loop msecs (fst r) (snd r)
             else Inr r))"
  by pat_completeness auto

definition try_read_incoming_messages :: "nat \<Rightarrow> OidBridge \<Rightarrow> failure + OidBridge" where
  "try_read_incoming_messages msecs b =
     (case client b of
        None \<Rightarrow> Inl AssertionFailed
      | Some s \<Rightarrow>
          (case try_read_loop msecs s b of
             Inl e \<Rightarrow> Inl e
           | Inr (s', b') \<Rightarrow> Inr (b'\<lparr>client := Some s'\<rparr>)))"

text \<open>
  \<^verbatim>\<open>fetch_message\<close>: the stored message if there is one; otherwise one call of
  \<^verbatim>\<open>try_read_incoming_messages()\<close>, with its default of 3000 ms, and a second look.
\<close>

definition fetch_message ::
  "MessageType \<Rightarrow> OidBridge \<Rightarrow> failure + (UiMessage option \<times> OidBridge)" where
  "fetch_message msg_type b =
     (case try_get_stored_message msg_type b of
        (Some result, b') \<Rightarrow> Inr (Some result, b')
      | (None, b') \<Rightarrow>
          (case try_read_incoming_messages 3000 b' of
             Inl e \<Rightarrow> Inl e
           | Inr b'' \<Rightarrow> Inr (try_get_stored_message msg_type b'')))"

text \<open>
  \<^verbatim>\<open>get_observed_symbols\<close>: the assertion, the request, the fetch of the response. The
  \<^verbatim>\<open>dynamic_cast\<close> of a stored message of the other class gives a null pointer, which the
  source then uses.
\<close>

definition get_observed_symbols :: "OidBridge \<Rightarrow> failure + (std_string list \<times> OidBridge)" where
  "get_observed_symbols b =
     (case client b of
        None \<Rightarrow> Inl AssertionFailed
      | Some s \<Rightarrow>
          (case fetch_message GetObservedSymbolsResponse
                  (b\<lparr>client := Some (send compose_get_observed_symbols s)\<rparr>) of
             Inl e \<Rightarrow> Inl e
           | Inr (None, b') \<Rightarrow> Inr ([], b')
           | Inr (Some (GetObservedSymbolsResponseMessage observed_symbols), b') \<Rightarrow>
               Inr (observed_symbols, b')
           | Inr (Some (PlotBufferRequestMessage buffer_name), b') \<Rightarrow> Inl NullDereference))"

definition set_available_symbols :: "std_string list \<Rightarrow> OidBridge \<Rightarrow> failure + OidBridge" where
  "set_available_symbols available_vars b =
     (case client b of
        None \<Rightarrow> Inl AssertionFailed
      | Some s \<Rightarrow>
          Inr (b\<lparr>client := Some (send (compose_set_available_symbols available_vars) s)\<rparr>))"

text \<open>
  \<^verbatim>\<open>plot_buffer\<close> has no assertion; \<^verbatim>\<open>send\<close> uses the socket it is given, so a null
  \<^verbatim>\<open>client_\<close> is the use of a null pointer.
\<close>

definition plot_buffer :: "PlotBuffer \<Rightarrow> OidBridge \<Rightarrow> failure + OidBridge" where
  "plot_buffer p b =
     (case client b of
        None \<Rightarrow> Inl NullDereference
      | Some s \<Rightarrow> Inr (b\<lparr>client := Some (send (compose_plot_buffer p) s)\<rparr>))"

text \<open>
  The host's callback receives \<^verbatim>\<open>buffer_name.c_str()\<close>: the bytes of the name up to its
  first zero byte. The model records the call.
\<close>

definition c_str :: "std_string \<Rightarrow> std_string" where
  "c_str s = takeWhile (\<lambda>c. c \<noteq> 0) s"

definition plot_callback :: "std_string \<Rightarrow> OidBridge \<Rightarrow> OidBridge" where
  "plot_callback name b = b\<lparr>plot_calls := plot_calls b @ [name]\<rparr>"

text \<open>
  The \<^verbatim>\<open>while\<close> loop of \<^verbatim>\<open>run_event_loop\<close>: take the stored plot request, if any, call
  the callback with its buffer name, and look again.
\<close>

function drain_plot_requests :: "OidBridge \<Rightarrow> failure + OidBridge" where
  "drain_plot_requests b =
     (case fst (try_get_stored_message PlotBufferRequest b) of
        None \<Rightarrow> Inr (snd (try_get_stored_message PlotBufferRequest b))
      | Some plot_request_message \<Rightarrow>
          (case plot_request_message of
             PlotBufferRequestMessage buffer_name \<Rightarrow>
               drain_plot_requests
                 (plot_callback (c_str buffer_name)
                    (snd (try_get_stored_message PlotBufferRequest b)))
           | GetObservedSymbolsResponseMessage observed_symbols \<Rightarrow> Inl NullDereference))"
  by pat_completeness auto

text \<open>\<^verbatim>\<open>run_event_loop\<close>: one read of at most \<^verbatim>\<open>1000.0 / 5.0\<close> = 200 ms, then the loop.\<close>

definition run_event_loop :: "OidBridge \<Rightarrow> failure + OidBridge" where
  "run_event_loop b =
     (case try_read_incoming_messages 200 b of
        Inl e \<Rightarrow> Inl e
      | Inr b' \<Rightarrow> drain_plot_requests b')"

definition wait_for_client :: "start_env \<Rightarrow> OidBridge \<Rightarrow> OidBridge" where
  "wait_for_client env b =
     (if client b = None then
        (if \<not> waitForNewConnection 10000 env then
           b\<lparr>cerr := cerr b
               @ [''[OpenImageDebugger] No clients connected to OpenImageDebugger server''],
             client := nextPendingConnection 10000 env\<rparr>
         else b\<lparr>client := nextPendingConnection 10000 env\<rparr>)
      else b)"

text \<open>
  \<^verbatim>\<open>start\<close>: listen, spawn the window binary with the port, wait for the process and
  for the client. The results of \<^verbatim>\<open>ui_proc_.start\<close> and \<^verbatim>\<open>waitForStart\<close> are not looked
  at by the source.
\<close>

definition start :: "start_env \<Rightarrow> OidBridge \<Rightarrow> bool \<times> OidBridge" where
  "start env b =
     (if \<not> can_bind env then
        (False, b\<lparr>cerr := cerr b @ [''[OpenImageDebugger] Could not start TCP server'']\<rparr>)
      else
        (let b1 = b\<lparr>server := \<lparr>isListening = True, serverPort = bound_port env\<rparr>\<rparr>;
             windowBinaryPath = oid_path b1 @ ''/oidwindow'';
             portStdString = to_string (serverPort (server b1));
             b2 = b1\<lparr>ui_proc := Process_start (can_spawn env)
                         [windowBinaryPath, ''-style'', ''fusion'', ''-p'', portStdString]
                         (ui_proc b1)\<rparr>;
             b3 = wait_for_client env b2
         in (client b3 \<noteq> None, b3)))"

definition set_path :: "string \<Rightarrow> OidBridge \<Rightarrow> OidBridge" where
  "set_path p b = b\<lparr>oid_path := p\<rparr>"

definition is_window_ready :: "OidBridge \<Rightarrow> bool" where
  "is_window_ready b = (client b \<noteq> None \<and> isRunning (ui_proc b))"

text \<open>The destructor \<^verbatim>\<open>~OidBridge\<close> kills the UI process.\<close>

definition destroy :: "OidBridge \<Rightarrow> OidBridge" where
  "destroy b = b\<lparr>ui_proc := kill (ui_proc b)\<rparr>"

text \<open>
  The message a stored \<open>UiMessage\<close> is on the wire, and the key it is stored under.
\<close>

fun wire :: "UiMessage \<Rightarrow> Message" where
  "wire (GetObservedSymbolsResponseMessage xs) = MsgGetObservedSymbolsResponse xs"
| "wire (PlotBufferRequestMessage s) = MsgPlotBufferRequest s"

fun ui_type :: "UiMessage \<Rightarrow> MessageType" where
  "ui_type (GetObservedSymbolsResponseMessage xs) = GetObservedSymbolsResponse"
| "ui_type (PlotBufferRequestMessage s) = PlotBufferRequest"

text \<open>
  Every stored message is of the class its key stands for, as it is when
  \<^verbatim>\<open>try_read_incoming_messages\<close> is the only writer of the inbox.
\<close>

definition inbox_ok :: "(MessageType \<rightharpoonup> UiMessage) \<Rightarrow> bool" where
  "inbox_ok m =
     ((case m PlotBufferRequest of None \<Rightarrow> True | Some msg \<Rightarrow> ui_type msg = PlotBufferRequest)
      \<and> (case m GetObservedSymbolsResponse of
            None \<Rightarrow> True
          | Some msg \<Rightarrow> ui_type msg = GetObservedSymbolsResponse))"

section \<open>The boundary to the host\<close>

text \<open>
  The exported functions take the host's objects. A Python object is modelled as far as
  the boundary looks at it: the type checks it makes and the values it takes out. The
  keys of a dictionary are the literal field names the source asks for. A memory view
  carries the bytes it exposes, or no buffer at all (\<^verbatim>\<open>get_c_ptr_from_py_buffer\<close> then
  leaves the pointer null). A Python \<^verbatim>\<open>bool\<close> is an integer as well
  (\<^verbatim>\<open>PY_INT_CHECK_FUNC\<close> accepts it).
\<close>

datatype PyObject =
    PyNone
  | PyBool bool
  | PyLong int
  | PyStr std_string
  | PyBytes std_string
  | PyList "PyObject list"
  | PyDict "(string \<times> PyObject) list"
  | PyMemoryView "byte list option"

datatype PyExc = PyExc_TypeError | PyExc_RuntimeError | PyExc_Exception | PyExc_KeyError

text \<open>
  What a call of an exported function leaves behind: the Python error it raised, if any
  (\<^verbatim>\<open>RAISE_PY_EXCEPTION\<close>; the model keeps the exception type and drops the message),
  the value it returned, and the bridge the handle points to after the call (\<open>None\<close> for a
  null handle, and for a bridge that was deleted). \<open>AppHandler\<close> is such a pointer. Every
  exported function first takes the interpreter lock (\<^verbatim>\<open>PyGILRAII\<close>) and releases it on
  return; the model leaves the lock out.
\<close>

record 'r outcome =
  raised :: "PyExc option"
  returned :: 'r
  app :: "OidBridge option"

type_synonym AppHandler = "OidBridge option"

definition PyDict_GetItemString :: "(string \<times> PyObject) list \<Rightarrow> string \<Rightarrow> PyObject option" where
  "PyDict_GetItemString d key = map_of d key"

fun PyBool_Check :: "PyObject \<Rightarrow> bool" where
  "PyBool_Check (PyBool v) = True"
| "PyBool_Check x = False"

fun PY_INT_CHECK_FUNC :: "PyObject \<Rightarrow> bool" where
  "PY_INT_CHECK_FUNC (PyLong i) = True"
| "PY_INT_CHECK_FUNC (PyBool v) = True"
| "PY_INT_CHECK_FUNC x = False"

fun PyList_Check :: "PyObject \<Rightarrow> bool" where
  "PyList_Check (PyList xs) = True"
| "PyList_Check x = False"

fun PyObject_IsTrue :: "PyObject \<Rightarrow> bool" where
  "PyObject_IsTrue (PyBool v) = v"
| "PyObject_IsTrue x = False"

text \<open>
  Modelled from the spec: the marshalling helpers of
  \<^verbatim>\<open>debuggerinterface/python_native_interface.h\<close>, which is not among the sources. The
  spec calls them a thin adapter that converts host values to the bridge's strings and
  integers: \<open>check_py_string_type\<close> accepts the two string types, \<open>copy_py_string\<close> copies
  the bytes of a string and leaves the destination empty for any other object, and
  \<open>get_py_int\<close> gives the integer value, which the source then casts to \<^verbatim>\<open>int\<close>.
\<close>

fun check_py_string_type :: "PyObject \<Rightarrow> bool" where
  "check_py_string_type (PyStr s) = True"
| "check_py_string_type (PyBytes s) = True"
| "check_py_string_type x = False"

fun copy_py_string :: "PyObject \<Rightarrow> std_string" where
  "copy_py_string (PyStr s) = s"
| "copy_py_string (PyBytes s) = s"
| "copy_py_string x = []"

fun get_py_int :: "PyObject \<Rightarrow> int" where
  "get_py_int (PyLong i) = i"
| "get_py_int (PyBool v) = (if v then 1 else 0)"
| "get_py_int x = 0"

text \<open>
  Modelled from the spec: the two checking macros of
  \<^verbatim>\<open>debuggerinterface/preprocessor_directives.h\<close>, which is not among the sources. The
  spec lists missing metadata fields and wrong value types as validation errors that are
  rejected before anything is sent: \<^verbatim>\<open>CHECK_FIELD_PROVIDED\<close> raises for an absent field,
  \<^verbatim>\<open>CHECK_FIELD_TYPE\<close> for a field that fails its type check, and both return.
\<close>

definition field_provided :: "(string \<times> PyObject) list \<Rightarrow> string \<Rightarrow> bool" where
  "field_provided d key = (PyDict_GetItemString d key \<noteq> None)"

definition field_type :: "(PyObject \<Rightarrow> bool) \<Rightarrow> (string \<times> PyObject) list \<Rightarrow> string \<Rightarrow> bool" where
  "field_type check d key =
     (case PyDict_GetItemString d key of None \<Rightarrow> False | Some v \<Rightarrow> check v)"

definition field_string :: "(string \<times> PyObject) list \<Rightarrow> string \<Rightarrow> std_string" where
  "field_string d key =
     (case PyDict_GetItemString d key of None \<Rightarrow> [] | Some v \<Rightarrow> copy_py_string v)"

text \<open>\<^verbatim>\<open>static_cast<int>(get_py_int(...))\<close>: the value cut to 32 bits.\<close>

definition field_int :: "(string \<times> PyObject) list \<Rightarrow> string \<Rightarrow> 32 word" where
  "field_int d key =
     (case PyDict_GetItemString d key of None \<Rightarrow> 0 | Some v \<Rightarrow> of_int (get_py_int v))"

text \<open>
  The buffer length the boundary expects. The product of the three \<^verbatim>\<open>int\<close>s is formed in
  \<^verbatim>\<open>int\<close> (32 bits, two's complement), then converted to \<^verbatim>\<open>size_t\<close> (64 bits, the sign
  extended) and multiplied by the element size in \<^verbatim>\<open>size_t\<close>. \<open>type_size\<close> is not among
  the sources and is a parameter.
\<close>

definition buff_size_expected ::
  "(32 word \<Rightarrow> 64 word) \<Rightarrow> 32 word \<Rightarrow> 32 word \<Rightarrow> 32 word \<Rightarrow> 32 word \<Rightarrow> 64 word" where
  "buff_size_expected type_size stride height channels ty =
     scast (stride * height * channels) * type_size ty"

definition raise :: "PyExc \<Rightarrow> 'r \<Rightarrow> AppHandler \<Rightarrow> failure + 'r outcome" where
  "raise exc r handler = Inr \<lparr>raised = Some exc, returned = r, app = handler\<rparr>"

definition oid_cleanup :: "AppHandler \<Rightarrow> failure + Process option outcome" where
  "oid_cleanup handler =
     (case handler of
        None \<Rightarrow> raise PyExc_RuntimeError None None
      | Some b \<Rightarrow> Inr \<lparr>raised = None, returned = Some (ui_proc (destroy b)), app = None\<rparr>)"

definition oid_exec :: "start_env \<Rightarrow> AppHandler \<Rightarrow> failure + unit outcome" where
  "oid_exec env handler =
     (case handler of
        None \<Rightarrow> raise PyExc_RuntimeError () None
      | Some b \<Rightarrow> Inr \<lparr>raised = None, returned = (), app = Some (snd (start env b))\<rparr>)"

definition oid_is_window_ready :: "AppHandler \<Rightarrow> failure + int outcome" where
  "oid_is_window_ready handler =
     (case handler of
        None \<Rightarrow> raise PyExc_RuntimeError 0 None
      | Some b \<Rightarrow>
          Inr \<lparr>raised = None, returned = (if is_window_ready b then 1 else 0), app = Some b\<rparr>)"

text \<open>
  \<^verbatim>\<open>oid_get_observed_buffers\<close> returns a list of byte strings, each made by
  \<^verbatim>\<open>PyBytes_FromString(symbol_name.c_str())\<close>; \<open>None\<close> is the null pointer it returns
  after raising. Failed allocations are not modelled.
\<close>

definition oid_get_observed_buffers :: "AppHandler \<Rightarrow> failure + PyObject option outcome" where
  "oid_get_observed_buffers handler =
     (case handler of
        None \<Rightarrow> raise PyExc_Exception None None
      | Some b \<Rightarrow>
          (case get_observed_symbols b of
             Inl e \<Rightarrow> Inl e
           | Inr (observed_symbols, b') \<Rightarrow>
               Inr \<lparr>raised = None,
                    returned = Some (PyList (map (\<lambda>symbol_name. PyBytes (c_str symbol_name))
                                              observed_symbols)),
                    app = Some b'\<rparr>))"

text \<open>
  \<^verbatim>\<open>oid_set_available_symbols\<close> asserts that its second argument is a list before it
  looks at the handle.
\<close>

definition oid_set_available_symbols :: "AppHandler \<Rightarrow> PyObject \<Rightarrow> failure + unit outcome" where
  "oid_set_available_symbols handler available_vars =
     (case available_vars of
        PyList items \<Rightarrow>
          (case handler of
             None \<Rightarrow> raise PyExc_RuntimeError () None
           | Some b \<Rightarrow>
               (case set_available_symbols (map copy_py_string items) b of
                  Inl e \<Rightarrow> Inl e
                | Inr b' \<Rightarrow> Inr \<lparr>raised = None, returned = (), app = Some b'\<rparr>))
      | _ \<Rightarrow> Inl AssertionFailed)"

definition oid_run_event_loop :: "AppHandler \<Rightarrow> failure + unit outcome" where
  "oid_run_event_loop handler =
     (case handler of
        None \<Rightarrow> raise PyExc_RuntimeError () None
      | Some b \<Rightarrow>
          (case run_event_loop b of
             Inl e \<Rightarrow> Inl e
           | Inr b' \<Rightarrow> Inr \<lparr>raised = None, returned = (), app = Some b'\<rparr>))"

text \<open>
  The part of \<^verbatim>\<open>oid_plot_buffer\<close> after the checks of the fields: the pointer and size of
  the memory view, the conversions, the expected size, the two tests of the buffer, and
  the call of \<^verbatim>\<open>plot_buffer\<close>.
\<close>

definition send_buffer_contents ::
  "(32 word \<Rightarrow> 64 word) \<Rightarrow> OidBridge \<Rightarrow> (string \<times> PyObject) list \<Rightarrow> bool
     \<Rightarrow> failure + unit outcome" where
  "send_buffer_contents type_size b d transposed =
     (case PyDict_GetItemString d ''pointer'' of
        Some (PyMemoryView view) \<Rightarrow>
          (case view of
             None \<Rightarrow> raise PyExc_TypeError () (Some b)
           | Some data \<Rightarrow>
               if (of_nat (length data) :: 64 word)
                    < buff_size_expected type_size (field_int d ''row_stride'')
                        (field_int d ''height'') (field_int d ''channels'') (field_int d ''type'')
               then raise PyExc_TypeError () (Some b)
               else
                 (case plot_buffer
                         \<lparr>variable_name_str = field_string d ''variable_name'',
                          display_name_str = field_string d ''display_name'',
                          pixel_layout_str = field_string d ''pixel_layout'',
                          transpose_buffer = transposed,
                          buff_width = field_int d ''width'',
                          buff_height = field_int d ''height'',
                          buff_channels = field_int d ''channels'',
                          buff_stride = field_int d ''row_stride'',
                          buff_type = field_int d ''type'',
                          buff = data\<rparr> b of
                    Inl e \<Rightarrow> Inl e
                  | Inr b' \<Rightarrow> Inr \<lparr>raised = None, returned = (), app = Some b'\<rparr>))
      | _ \<Rightarrow> raise PyExc_TypeError () (Some b))"

definition fields_provided :: "(string \<times> PyObject) list \<Rightarrow> bool" where
  "fields_provided d =
     (field_provided d ''variable_name'' \<and> field_provided d ''display_name''
      \<and> field_provided d ''pointer'' \<and> field_provided d ''width''
      \<and> field_provided d ''height'' \<and> field_provided d ''channels''
      \<and> field_provided d ''type'' \<and> field_provided d ''row_stride''
      \<and> field_provided d ''pixel_layout'')"

definition fields_typed :: "(string \<times> PyObject) list \<Rightarrow> bool" where
  "fields_typed d =
     (field_type check_py_string_type d ''variable_name''
      \<and> field_type check_py_string_type d ''display_name''
      \<and> field_type PY_INT_CHECK_FUNC d ''width'' \<and> field_type PY_INT_CHECK_FUNC d ''height''
      \<and> field_type PY_INT_CHECK_FUNC d ''channels'' \<and> field_type PY_INT_CHECK_FUNC d ''type''
      \<and> field_type PY_INT_CHECK_FUNC d ''row_stride''
      \<and> field_type check_py_string_type d ''pixel_layout'')"

text \<open>
  \<^verbatim>\<open>oid_plot_buffer\<close>: the handle, the dictionary, the optional \<^verbatim>\<open>transpose_buffer\<close>, the
  required fields and their types, then the buffer.
\<close>

definition oid_plot_buffer ::
  "(32 word \<Rightarrow> 64 word) \<Rightarrow> AppHandler \<Rightarrow> PyObject \<Rightarrow> failure + unit outcome" where
  "oid_plot_buffer type_size handler buffer_metadata =
     (case handler of
        None \<Rightarrow> raise PyExc_RuntimeError () None
      | Some b \<Rightarrow>
          (case buffer_metadata of
             PyDict d \<Rightarrow>
               if field_provided d ''transpose_buffer''
                  \<and> \<not> field_type PyBool_Check d ''transpose_buffer''
               then raise PyExc_TypeError () (Some b)
               else if \<not> fields_provided d then raise PyExc_KeyError () (Some b)
               else if \<not> fields_typed d then raise PyExc_TypeError () (Some b)
               else send_buffer_contents type_size b d
                      (field_type PyObject_IsTrue d ''transpose_buffer'')
           | _ \<Rightarrow> raise PyExc_TypeError () (Some b)))"

text \<open>
  The buffer name the callback loop would hand to the host for the stored plot request:
  none when no request is stored.
\<close>

definition pending_plot_request :: "OidBridge \<Rightarrow> std_string list" where
  "pending_plot_request b =
     (case received_messages b PlotBufferRequest of
        Some (PlotBufferRequestMessage buffer_name) \<Rightarrow> [c_str buffer_name]
      | _ \<Rightarrow> [])"

text \<open>
  Two starting points for examples: a socket with nothing buffered, nothing arriving and
  nothing written, and a new bridge whose client is a given socket.
\<close>

definition idle_socket :: QTcpSocket where
  "idle_socket = \<lparr>rx = [], arriving = [], tx = []\<rparr>"

definition connected_bridge :: "QTcpSocket \<Rightarrow> OidBridge" where
  "connected_bridge s = new_OidBridge\<lparr>client := Some s\<rparr>"

section \<open>Termination of the two loops\<close>

text \<open>
  Every pass of the read loop consumes at least one of the bytes that are buffered or
  still to arrive, so the loop ends; the callback loop ends because taking the stored
  plot request out leaves none.
\<close>

lemma read_bytes_length:
  "read_bytes n bs = Some (xs, rest) \<Longrightarrow> length rest \<le> length bs"
  by (auto simp: read_bytes_def split: if_splits)

lemma read_size_t_length:
  "read_size_t bs = Some (n, rest) \<Longrightarrow> length rest \<le> length bs"
  by (auto simp: read_size_t_def split: option.splits dest: read_bytes_length)

lemma read_string_length:
  "read_string bs = Some (s, rest) \<Longrightarrow> length rest \<le> length bs"
  by (fastforce simp: read_string_def split: option.splits
      dest: read_bytes_length read_size_t_length)

lemma read_n_strings_length:
  "read_n_strings k bs = Some (xs, rest) \<Longrightarrow> length rest \<le> length bs"
proof (induction k arbitrary: bs xs)
  case 0
  then show ?case by simp
next
  case (Suc k)
  then show ?case
    by (fastforce split: option.splits dest: read_string_length)
qed

lemma read_strings_length:
  "read_strings bs = Some (xs, rest) \<Longrightarrow> length rest \<le> length bs"
  by (fastforce simp: read_strings_def split: option.splits
      dest: read_n_strings_length read_size_t_length)

lemma pending_bytes_waitForReadyRead [simp]:
  "pending_bytes (waitForReadyRead msecs s) = pending_bytes s"
  by (auto simp: pending_bytes_def waitForReadyRead_def split: list.splits)

lemma dispatch_header_consumes:
  assumes "dispatch_header s b = Inr (s', b')" and "rx s \<noteq> []"
  shows "pending_bytes s' < pending_bytes s"
proof -
  have cut: "length (drop sizeof_header (rx s)) < length (rx s)"
    using assms(2) by (simp add: sizeof_header_def)
  from assms(1) show ?thesis
    using cut
    by (auto simp: dispatch_header_def sock_read_def pending_bytes_def Let_def
        decode_plot_buffer_request_def decode_get_observed_symbols_response_def
        split: if_splits option.splits
        dest!: read_string_length read_strings_length)
qed

termination try_read_loop
proof (relation "measure (\<lambda>(msecs, s, b). pending_bytes s)")
  show "wf (measure (\<lambda>(msecs, s, b). pending_bytes s))"
    by simp
next
  fix msecs s b r
  assume "bytesAvailable (waitForReadyRead msecs s) \<noteq> 0"
    and "dispatch_header (waitForReadyRead msecs s) b = Inr r"
  then have "pending_bytes (fst r) < pending_bytes (waitForReadyRead msecs s)"
    using dispatch_header_consumes [of "waitForReadyRead msecs s" b "fst r" "snd r"]
    by (simp add: bytesAvailable_def)
  then show "((msecs, fst r, snd r), (msecs, s, b)) \<in> measure (\<lambda>(msecs, s, b). pending_bytes s)"
    by (simp add: case_prod_beta)
qed

declare try_read_loop.simps [simp del]

lemma try_get_stored_message_erases:
  "received_messages (snd (try_get_stored_message t b)) t = None"
  by (simp add: try_get_stored_message_def split: option.splits)

lemma try_get_stored_message_Some:
  "fst (try_get_stored_message t b) = Some m \<Longrightarrow> received_messages b t = Some m"
  by (simp add: try_get_stored_message_def split: option.splits)

termination drain_plot_requests
proof (relation "measure (\<lambda>b. if received_messages b PlotBufferRequest = None then 0 else 1)")
  show "wf (measure (\<lambda>b. if received_messages b PlotBufferRequest = None then 0 else 1))"
    by simp
next
  fix b :: OidBridge and m name
  assume "fst (try_get_stored_message PlotBufferRequest b) = Some m"
  then have "received_messages b PlotBufferRequest \<noteq> None"
    by (simp add: try_get_stored_message_Some)
  then show "(plot_callback (c_str name) (snd (try_get_stored_message PlotBufferRequest b)), b)
      \<in> measure (\<lambda>b. if received_messages b PlotBufferRequest = None then 0 else 1)"
    by (simp add: plot_callback_def try_get_stored_message_erases)
qed

declare drain_plot_requests.simps [simp del]

section \<open>Round trips of the wire primitives\<close>

lemma le_bytes_Suc: "le_bytes (Suc k) n = of_nat n # le_bytes k (n div 256)"
proof -
  have "[0..<Suc k] = 0 # map Suc [0..<k]"
    by (simp add: upt_conv_Cons map_Suc_upt del: upt_Suc)
  then show ?thesis
    by (simp add: le_bytes_def div_mult2_eq comp_def del: upt_Suc)
qed

lemma length_le_bytes: "length (le_bytes k n) = k"
  by (simp add: le_bytes_def)

lemma le_nat_le_bytes: "n < 256 ^ k \<Longrightarrow> le_nat (le_bytes k n) = n"
proof (induction k arbitrary: n)
  case 0
  then show ?case by (simp add: le_bytes_def)
next
  case (Suc k)
  from Suc.prems have "n div 256 < 256 ^ k"
    by (simp add: less_mult_imp_div_less mult.commute)
  then have "le_nat (le_bytes k (n div 256)) = n div 256"
    by (rule Suc.IH)
  then show ?case
    by (simp add: le_bytes_Suc unat_of_nat)
qed

lemma read_bytes_append: "length xs = n \<Longrightarrow> read_bytes n (xs @ rest) = Some (xs, rest)"
  by (simp add: read_bytes_def)

lemma read_size_t_push: "n < 2 ^ 64 \<Longrightarrow> read_size_t (push_size_t n @ rest) = Some (n, rest)"
  by (simp add: read_size_t_def push_size_t_def sizeof_size_t_def
      read_bytes_append length_le_bytes le_nat_le_bytes)

lemma read_string_push:
  "valid_string s \<Longrightarrow> read_string (push_string s @ rest) = Some (s, rest)"
  by (simp add: read_string_def push_string_def valid_string_def read_size_t_push
      read_bytes_append)

lemma read_buffer_push:
  "valid_string p \<Longrightarrow> read_buffer (push_buffer p @ rest) = Some (p, rest)"
  by (simp add: read_buffer_def push_buffer_def valid_string_def read_size_t_push
      read_bytes_append)

lemma read_n_strings_push:
  "list_all valid_string xs \<Longrightarrow>
   read_n_strings (length xs) (concat (map push_string xs) @ rest) = Some (xs, rest)"
  by (induction xs) (simp_all add: read_string_push)

lemma read_strings_push:
  "valid_strings xs \<Longrightarrow> read_strings (push_strings xs @ rest) = Some (xs, rest)"
  by (simp add: read_strings_def push_strings_def valid_strings_def read_size_t_push
      read_n_strings_push)

lemma read_bool_push: "read_bool (push_bool b @ rest) = Some (b, rest)"
  by (simp add: read_bool_def push_bool_def read_bytes_def)

lemma read_int_push: "read_int (push_int w @ rest) = Some (w, rest)"
proof -
  have "unat w < 256 ^ 4"
    using unsigned_less [of w] by simp
  then show ?thesis
    by (simp add: read_int_def push_int_def read_bytes_append length_le_bytes le_nat_le_bytes)
qed

lemma header_type_tag_of: "header_type (tag_of t) = Some t"
  by (cases t) (simp_all add: header_type_def)

lemma read_MessageType_push:
  "read_MessageType (push_MessageType t @ rest) = Some (t, rest)"
proof -
  have "tag_of t < 256 ^ 4"
    by (cases t) simp_all
  then show ?thesis
    by (simp add: read_MessageType_def push_MessageType_def sizeof_header_def
        read_bytes_append length_le_bytes le_nat_le_bytes header_type_tag_of)
qed

lemma read_plot_buffer_compose:
  assumes "valid_string (variable_name_str p)" "valid_string (display_name_str p)"
    "valid_string (pixel_layout_str p)" "valid_string (buff p)"
  shows "read_plot_buffer
           (push_string (variable_name_str p) @ push_string (display_name_str p)
            @ push_string (pixel_layout_str p) @ push_bool (transpose_buffer p)
            @ push_int (buff_width p) @ push_int (buff_height p)
            @ push_int (buff_channels p) @ push_int (buff_stride p)
            @ push_int (buff_type p) @ push_buffer (buff p) @ rest) = Some (p, rest)"
  using assms
  by (simp add: read_plot_buffer_def read_string_push read_bool_push read_int_push
      read_buffer_push)

section \<open>The read loop and the callback loop\<close>

lemma waitForReadyRead_idle: "arriving s = [] \<Longrightarrow> waitForReadyRead msecs s = s"
  by (simp add: waitForReadyRead_def)

lemma length_push_MessageType: "length (push_MessageType t) = sizeof_header"
  by (simp add: push_MessageType_def length_le_bytes)

lemma le_nat_push_MessageType: "le_nat (push_MessageType t) = tag_of t"
proof -
  have "tag_of t < 256 ^ 4"
    by (cases t) simp_all
  then show ?thesis
    by (simp add: push_MessageType_def sizeof_header_def le_nat_le_bytes)
qed

lemma encode_wire: "encode (wire m) = push_MessageType (ui_type m) @ drop sizeof_header (encode (wire m))"
  by (cases m) (simp_all add: length_push_MessageType)

lemma encode_nonempty: "encode m \<noteq> []"
proof -
  have "length (encode m) \<ge> sizeof_header"
    by (cases m) (simp_all add: compose_get_observed_symbols_def
        compose_set_available_symbols_def compose_plot_buffer_def length_push_MessageType)
  then show ?thesis by (auto simp: sizeof_header_def)
qed

lemma dispatch_header_message:
  assumes "valid_message (wire m)" and "rx s = encode (wire m) @ rest"
  shows "dispatch_header s b =
    Inr (s\<lparr>rx := rest\<rparr>, b\<lparr>received_messages := (received_messages b)(ui_type m \<mapsto> m)\<rparr>)"
proof (cases m)
  case (GetObservedSymbolsResponseMessage xs)
  with assms show ?thesis
    by (simp add: dispatch_header_def sock_read_def length_push_MessageType
        le_nat_push_MessageType decode_get_observed_symbols_response_def read_strings_push)
next
  case (PlotBufferRequestMessage name)
  with assms show ?thesis
    by (simp add: dispatch_header_def sock_read_def length_push_MessageType
        le_nat_push_MessageType decode_plot_buffer_request_def read_string_push)
qed


lemma try_read_loop_stream:
  assumes "list_all (\<lambda>m. valid_message (wire m)) ms" and "arriving s = []"
    and "rx s = concat (map (\<lambda>m. encode (wire m)) ms)"
  shows "try_read_loop msecs s b =
    Inr (s\<lparr>rx := []\<rparr>,
         b\<lparr>received_messages := foldl (\<lambda>i m. i(ui_type m \<mapsto> m)) (received_messages b) ms\<rparr>)"
  using assms
proof (induction ms arbitrary: s b)
  case Nil
  then show ?case
    by (subst try_read_loop.simps) (simp add: waitForReadyRead_idle bytesAvailable_def)
next
  case (Cons m ms)
  let ?rest = "concat (map (\<lambda>m. encode (wire m)) ms)"
  let ?s' = "s\<lparr>rx := ?rest\<rparr>"
  let ?b' = "b\<lparr>received_messages := (received_messages b)(ui_type m \<mapsto> m)\<rparr>"
  have d: "dispatch_header s b = Inr (?s', ?b')"
    using Cons.prems by (intro dispatch_header_message) simp_all
  have avail: "bytesAvailable s \<noteq> 0"
    using Cons.prems(3) encode_nonempty [of "wire m"] by (simp add: bytesAvailable_def)
  have ih: "try_read_loop msecs ?s' ?b' =
    Inr (?s'\<lparr>rx := []\<rparr>,
         ?b'\<lparr>received_messages := foldl (\<lambda>i m. i(ui_type m \<mapsto> m)) (received_messages ?b') ms\<rparr>)"
    using Cons.prems by (intro Cons.IH) simp_all
  show ?case
  proof (cases "?rest = []")
    case True
    then have "ms = []"
      using encode_nonempty by (cases ms) auto
    with True d avail Cons.prems(2) show ?thesis
      by (subst try_read_loop.simps) (simp add: waitForReadyRead_idle bytesAvailable_def)
  next
    case False
    with d avail ih Cons.prems(2) show ?thesis
      by (subst try_read_loop.simps) (simp add: waitForReadyRead_idle bytesAvailable_def)
  qed
qed

lemma try_read_loop_after_wait:
  assumes "arriving (waitForReadyRead msecs s) = []"
  shows "try_read_loop msecs s b = try_read_loop msecs (waitForReadyRead msecs s) b"
proof -
  have "waitForReadyRead msecs (waitForReadyRead msecs s) = waitForReadyRead msecs s"
    using assms by (rule waitForReadyRead_idle)
  then show ?thesis
    using try_read_loop.simps [of msecs s b]
      try_read_loop.simps [of msecs "waitForReadyRead msecs s" b]
    by simp
qed

lemma waitForReadyRead_quiet:
  "quiet msecs s \<Longrightarrow> rx (waitForReadyRead msecs s) = rx s"
  by (auto simp: quiet_def waitForReadyRead_def split: list.splits)

lemma waitForReadyRead_tx [simp]: "tx (waitForReadyRead msecs s) = tx s"
  by (auto simp: waitForReadyRead_def split: list.splits)

lemma try_read_loop_quiet:
  assumes "rx s = []" and "quiet msecs s"
  shows "try_read_loop msecs s b = Inr (waitForReadyRead msecs s, b)"
  using assms
  by (subst try_read_loop.simps) (simp add: bytesAvailable_def waitForReadyRead_quiet)

lemma dispatch_header_frame:
  assumes "dispatch_header s b = Inr (s', b')"
  shows "plot_calls b' = plot_calls b \<and> ui_proc b' = ui_proc b \<and> server b' = server b
    \<and> client b' = client b \<and> oid_path b' = oid_path b \<and> tx s' = tx s"
  using assms
  by (auto simp: dispatch_header_def sock_read_def Let_def
      decode_plot_buffer_request_def decode_get_observed_symbols_response_def
      split: if_splits option.splits)

lemma dispatch_header_inbox_ok:
  assumes "dispatch_header s b = Inr (s', b')" and "inbox_ok (received_messages b)"
  shows "inbox_ok (received_messages b')"
  using assms
  by (auto simp: dispatch_header_def sock_read_def Let_def inbox_ok_def
      decode_plot_buffer_request_def decode_get_observed_symbols_response_def
      split: if_splits option.splits)

lemma try_read_loop_frame:
  "try_read_loop msecs s b = Inr (s', b') \<Longrightarrow>
   plot_calls b' = plot_calls b \<and> ui_proc b' = ui_proc b \<and> server b' = server b
    \<and> client b' = client b \<and> oid_path b' = oid_path b \<and> tx s' = tx s"
proof (induction msecs s b rule: try_read_loop.induct)
  case (1 msecs s b)
  show ?case
  proof (cases "bytesAvailable (waitForReadyRead msecs s) = 0")
    case True
    with "1.prems" show ?thesis
      by (subst (asm) try_read_loop.simps) auto
  next
    case False
    from "1.prems" False obtain r where
      r: "dispatch_header (waitForReadyRead msecs s) b = Inr r"
      by (subst (asm) try_read_loop.simps) (auto split: sum.splits)
    then have fr: "plot_calls (snd r) = plot_calls b \<and> ui_proc (snd r) = ui_proc b
      \<and> server (snd r) = server b \<and> client (snd r) = client b
      \<and> oid_path (snd r) = oid_path b \<and> tx (fst r) = tx s"
      using dispatch_header_frame [of "waitForReadyRead msecs s" b "fst r" "snd r"] by simp
    show ?thesis
    proof (cases "bytesAvailable (fst r) > 0")
      case True
      with "1.prems" False r have "try_read_loop msecs (fst r) (snd r) = Inr (s', b')"
        by (subst (asm) try_read_loop.simps) simp
      with "1.IH" [OF False r True] fr show ?thesis by simp
    next
      case nomore: False
      with "1.prems" False r have "r = (s', b')"
        by (subst (asm) try_read_loop.simps) simp
      with fr show ?thesis by auto
    qed
  qed
qed

lemma try_read_loop_inbox_ok:
  "try_read_loop msecs s b = Inr (s', b') \<Longrightarrow> inbox_ok (received_messages b) \<Longrightarrow>
   inbox_ok (received_messages b')"
proof (induction msecs s b rule: try_read_loop.induct)
  case (1 msecs s b)
  show ?case
  proof (cases "bytesAvailable (waitForReadyRead msecs s) = 0")
    case True
    with "1.prems" show ?thesis
      by (subst (asm) try_read_loop.simps) auto
  next
    case False
    from "1.prems" False obtain r where
      r: "dispatch_header (waitForReadyRead msecs s) b = Inr r"
      by (subst (asm) try_read_loop.simps) (auto split: sum.splits)
    then have ok: "inbox_ok (received_messages (snd r))"
      using dispatch_header_inbox_ok [of "waitForReadyRead msecs s" b "fst r" "snd r"]
        "1.prems"(2) by simp
    show ?thesis
    proof (cases "bytesAvailable (fst r) > 0")
      case True
      with "1.prems" False r have "try_read_loop msecs (fst r) (snd r) = Inr (s', b')"
        by (subst (asm) try_read_loop.simps) simp
      with "1.IH" [OF False r True] ok show ?thesis by simp
    next
      case nomore: False
      with "1.prems" False r have "r = (s', b')"
        by (subst (asm) try_read_loop.simps) simp
      with ok show ?thesis by auto
    qed
  qed
qed

lemma drain_plot_requests_none:
  "received_messages b PlotBufferRequest = None \<Longrightarrow> drain_plot_requests b = Inr b"
  by (subst drain_plot_requests.simps) (simp add: try_get_stored_message_def)

lemma drain_plot_requests_some:
  assumes "received_messages b PlotBufferRequest = Some (PlotBufferRequestMessage name)"
  shows "drain_plot_requests b =
    Inr (plot_callback (c_str name)
          (b\<lparr>received_messages := (received_messages b)(PlotBufferRequest := None)\<rparr>))"
proof -
  let ?b' = "plot_callback (c_str name)
          (b\<lparr>received_messages := (received_messages b)(PlotBufferRequest := None)\<rparr>)"
  have "received_messages ?b' PlotBufferRequest = None"
    by (simp add: plot_callback_def)
  then have "drain_plot_requests ?b' = Inr ?b'"
    by (rule drain_plot_requests_none)
  with assms show ?thesis
    by (subst drain_plot_requests.simps) (simp add: try_get_stored_message_def)
qed

lemma try_read_incoming_messages_chunk:
  assumes "client b = Some s" and "rx s = []"
    and "arriving s = [(d, concat (map (\<lambda>m. encode (wire m)) ms))]" and "d \<le> msecs"
    and "list_all (\<lambda>m. valid_message (wire m)) ms"
  shows "try_read_incoming_messages msecs b =
    Inr (b\<lparr>client := Some (s\<lparr>rx := [], arriving := []\<rparr>),
           received_messages := foldl (\<lambda>i m. i(ui_type m \<mapsto> m)) (received_messages b) ms\<rparr>)"
proof -
  let ?s1 = "s\<lparr>rx := concat (map (\<lambda>m. encode (wire m)) ms), arriving := []\<rparr>"
  have w: "waitForReadyRead msecs s = ?s1"
    using assms(2,3,4) by (simp add: waitForReadyRead_def)
  then have "try_read_loop msecs s b = try_read_loop msecs ?s1 b"
    using try_read_loop_after_wait [of msecs s b] by simp
  also have "\<dots> = Inr (?s1\<lparr>rx := []\<rparr>,
         b\<lparr>received_messages := foldl (\<lambda>i m. i(ui_type m \<mapsto> m)) (received_messages b) ms\<rparr>)"
    using assms(5) by (intro try_read_loop_stream) simp_all
  finally show ?thesis
    using assms(1) by (simp add: try_read_incoming_messages_def)
qed

lemma try_read_incoming_messages_frame:
  assumes "try_read_incoming_messages msecs b = Inr b'"
  shows "plot_calls b' = plot_calls b \<and> ui_proc b' = ui_proc b \<and> server b' = server b
    \<and> oid_path b' = oid_path b"
  using assms
  by (auto simp: try_read_incoming_messages_def split: option.splits sum.splits
      dest: try_read_loop_frame)

lemma try_read_incoming_messages_inbox_ok:
  assumes "try_read_incoming_messages msecs b = Inr b'" and "inbox_ok (received_messages b)"
  shows "inbox_ok (received_messages b')"
  using assms
  by (auto simp: try_read_incoming_messages_def split: option.splits sum.splits
      dest: try_read_loop_inbox_ok)

lemma drain_plot_requests_inbox_ok:
  assumes "inbox_ok (received_messages b)"
  shows "drain_plot_requests b =
    Inr (b\<lparr>received_messages := (received_messages b)(PlotBufferRequest := None),
           plot_calls := plot_calls b @ pending_plot_request b\<rparr>)"
proof (cases "received_messages b PlotBufferRequest")
  case None
  then show ?thesis
    by (simp add: drain_plot_requests_none pending_plot_request_def fun_upd_idem)
next
  case (Some m)
  with assms obtain name where "m = PlotBufferRequestMessage name"
    by (cases m) (simp_all add: inbox_ok_def)
  with Some show ?thesis
    by (simp add: drain_plot_requests_some pending_plot_request_def plot_callback_def)
qed

lemma drain_plot_requests_leaves_none:
  assumes "drain_plot_requests b = Inr b'"
  shows "received_messages b' PlotBufferRequest = None"
proof (cases "received_messages b PlotBufferRequest")
  case None
  with assms show ?thesis
    by (simp add: drain_plot_requests_none)
next
  case (Some m)
  show ?thesis
  proof (cases m)
    case (PlotBufferRequestMessage name)
    with Some assms show ?thesis
      by (auto simp: drain_plot_requests_some plot_callback_def)
  next
    case (GetObservedSymbolsResponseMessage xs)
    with Some assms show ?thesis
      by (subst (asm) drain_plot_requests.simps) (simp add: try_get_stored_message_def)
  qed
qed






section \<open>The expected buffer size without overflow\<close>

lemma signed_take_bit_31_self:
  fixes P :: int
  assumes "0 \<le> P" and "P < 2 ^ 31"
  shows "signed_take_bit 31 P = P"
proof (rule signed_take_bit_int_eq_self)
  have "(0::int) \<le> 2 ^ 31" by simp
  with assms(1) show "- (2 ^ 31) \<le> P" by linarith
  show "P < 2 ^ 31" by (rule assms(2))
qed

lemma scast_word_of_int_small:
  fixes P :: int
  assumes "0 \<le> P" and "P < 2 ^ 31"
  shows "(scast (word_of_int P :: 32 word) :: 64 word) = of_nat (nat P)"
proof -
  have "sint (word_of_int P :: 32 word) = signed_take_bit 31 P"
    by (simp add: sint_sbintrunc')
  also have "\<dots> = P"
    using assms by (rule signed_take_bit_31_self)
  finally have "(scast (word_of_int P :: 32 word) :: 64 word) = word_of_int P"
    by (simp only: scast_eq)
  also have "\<dots> = of_nat (nat P)"
    using assms(1) by (simp only: word_of_int_nat)
  finally show ?thesis .
qed

lemma unat_of_nat_mult_small:
  fixes w :: "64 word"
  assumes "n * unat w < 2 ^ 64" and "n < 2 ^ 31"
  shows "unat (of_nat n * w) = n * unat w"
proof -
  have "(2::nat) ^ 31 \<le> 2 ^ 64"
    by (rule power_increasing) simp_all
  with assms(2) have "n < 2 ^ LENGTH(64)"
    by simp
  then have n: "unat (of_nat n :: 64 word) = n"
    by (intro of_nat_inverse [OF refl])
  have "unat (of_nat n * w) = (unat (of_nat n :: 64 word) * unat w) mod 2 ^ LENGTH(64)"
    by (rule unat_word_ariths)
  also have "\<dots> = n * unat w"
    using assms(1) n by simp
  finally show ?thesis .
qed

lemma buff_size_expected_exact:
  fixes stride height channels :: "32 word"
  defines "P \<equiv> sint stride * sint height * sint channels"
  assumes "0 \<le> P" and "P < 2 ^ 31"
    and "nat P * unat (type_size ty) < 2 ^ 64"
  shows "unat (buff_size_expected type_size stride height channels ty)
    = nat P * unat (type_size ty)"
proof -
  have "stride * height * channels = word_of_int P"
    by (simp add: P_def)
  then have "buff_size_expected type_size stride height channels ty
      = of_nat (nat P) * type_size ty"
    using assms(2,3) by (simp only: buff_size_expected_def scast_word_of_int_small)
  moreover have "nat P < 2 ^ 31"
    using assms(2,3) by (simp add: nat_less_iff)
  ultimately show ?thesis
    using assms(4) by (simp only: unat_of_nat_mult_small)
qed

lemma send_buffer_contents_rejects_short:
  assumes "PyDict_GetItemString d ''pointer'' = Some (PyMemoryView (Some data))"
    and "0 \<le> sint (field_int d ''row_stride'') * sint (field_int d ''height'')
              * sint (field_int d ''channels'')"
    and "sint (field_int d ''row_stride'') * sint (field_int d ''height'')
              * sint (field_int d ''channels'') < 2 ^ 31"
    and "nat (sint (field_int d ''row_stride'') * sint (field_int d ''height'')
              * sint (field_int d ''channels'')) * unat (type_size (field_int d ''type''))
         < 2 ^ 64"
    and "length data
         < nat (sint (field_int d ''row_stride'') * sint (field_int d ''height'')
              * sint (field_int d ''channels'')) * unat (type_size (field_int d ''type''))"
  shows "send_buffer_contents type_size b d transposed
    = Inr \<lparr>raised = Some PyExc_TypeError, returned = (), app = Some b\<rparr>"
proof -
  let ?expected = "buff_size_expected type_size (field_int d ''row_stride'')
      (field_int d ''height'') (field_int d ''channels'') (field_int d ''type'')"
  have e: "unat ?expected
      = nat (sint (field_int d ''row_stride'') * sint (field_int d ''height'')
              * sint (field_int d ''channels'')) * unat (type_size (field_int d ''type''))"
    using assms(2,3,4) by (rule buff_size_expected_exact)
  have "unat (of_nat (length data) :: 64 word) \<le> length data"
    by (simp add: unat_of_nat)
  with e assms(5) have "unat (of_nat (length data) :: 64 word) < unat ?expected"
    by linarith
  then have "(of_nat (length data) :: 64 word) < ?expected"
    by (simp only: word_less_nat_alt)
  with assms(1) show ?thesis
    by (simp add: send_buffer_contents_def raise_def)
qed

lemma oid_plot_buffer_example_479:
  assumes "type_size 5 = 4"
  shows "oid_plot_buffer type_size (Some b)
     (PyDict [(''variable_name'', PyStr [97]), (''display_name'', PyStr [97]),
              (''pointer'', PyMemoryView (Some (replicate 479 0))), (''width'', PyLong 4),
              (''height'', PyLong 10), (''channels'', PyLong 3), (''type'', PyLong 5),
              (''row_stride'', PyLong 4), (''pixel_layout'', PyStr [114, 103, 98])])
   = Inr \<lparr>raised = Some PyExc_TypeError, returned = (), app = Some b\<rparr>"
  using assms
  by (simp add: oid_plot_buffer_def field_provided_def field_type_def fields_provided_def
      fields_typed_def PyDict_GetItemString_def send_buffer_contents_def
      buff_size_expected_def field_int_def raise_def)

section \<open>The codec round trip\<close>

text \<open>
  Claim C1. For every valid message, decoding the bytes that encoding produced gives the
  message back, and consumes exactly those bytes: whatever follows them in the stream is
  left in place. The encoding is the tag followed by the payload fields in declaration
  order, each variable-size field behind its length.
\<close>

theorem decode_encode_roundtrip:
  assumes "valid_message m"
  shows "decode (encode m @ rest) = Some (m, rest)"
proof (cases m)
  case MsgGetObservedSymbols
  then show ?thesis
    by (simp add: decode_def compose_get_observed_symbols_def read_MessageType_push)
next
  case (MsgGetObservedSymbolsResponse xs)
  with assms show ?thesis
    by (simp add: decode_def read_MessageType_push read_strings_push)
next
  case (MsgSetAvailableSymbols xs)
  with assms show ?thesis
    by (simp add: decode_def compose_set_available_symbols_def read_MessageType_push
        read_strings_push)
next
  case (MsgPlotBufferContents p)
  with assms show ?thesis
    by (simp add: decode_def compose_plot_buffer_def read_MessageType_push
        read_plot_buffer_compose)
next
  case (MsgPlotBufferRequest s)
  with assms show ?thesis
    by (simp add: decode_def read_MessageType_push read_string_push)
qed

theorem decode_encode_roundtrip_witness:
  "valid_message (MsgSetAvailableSymbols [])
   \<and> decode (encode (MsgSetAvailableSymbols []) @ []) = Some (MsgSetAvailableSymbols [], [])
   \<and> valid_message (MsgPlotBufferRequest [97])
   \<and> decode (encode (MsgPlotBufferRequest [97]) @ [1, 2])
       = Some (MsgPlotBufferRequest [97], [1, 2])
   \<and> decode (encode (MsgPlotBufferContents
         \<lparr>variable_name_str = [97], display_name_str = [], pixel_layout_str = [114, 103, 98],
          transpose_buffer = True, buff_width = 0, buff_height = 0, buff_channels = 3,
          buff_stride = 0, buff_type = 5, buff = []\<rparr>) @ [])
       = Some (MsgPlotBufferContents
         \<lparr>variable_name_str = [97], display_name_str = [], pixel_layout_str = [114, 103, 98],
          transpose_buffer = True, buff_width = 0, buff_height = 0, buff_channels = 3,
          buff_stride = 0, buff_type = 5, buff = []\<rparr>, [])"
  using decode_encode_roundtrip [of "MsgSetAvailableSymbols []" "[]"]
    decode_encode_roundtrip [of "MsgPlotBufferRequest [97]" "[1, 2]"]
    decode_encode_roundtrip [of "MsgPlotBufferContents
         \<lparr>variable_name_str = [97], display_name_str = [], pixel_layout_str = [114, 103, 98],
          transpose_buffer = True, buff_width = 0, buff_height = 0, buff_channels = 3,
          buff_stride = 0, buff_type = 5, buff = []\<rparr>" "[]"]
  by (simp add: valid_strings_def valid_string_def)

section \<open>The inbox\<close>

text \<open>
  Claim C2. The inbox holds at most one message per message type (it is a map from the
  type to one message). When two messages of the same type arrive and are read with no
  fetch in between, the read stores the second over the first, and over whatever was
  stored under that type before: afterwards exactly the second is in the inbox. Taking a
  stored message out of the inbox returns it and removes it.
\<close>

theorem inbox_most_recent_wins:
  assumes "client b = Some s" and "arriving s = []"
    and "rx s = encode (wire m1) @ encode (wire m2)"
    and "ui_type m1 = ui_type m2"
    and "valid_message (wire m1)" and "valid_message (wire m2)"
  shows "try_read_incoming_messages msecs b
      = Inr (b\<lparr>client := Some (s\<lparr>rx := []\<rparr>),
               received_messages := (received_messages b)(ui_type m2 \<mapsto> m2)\<rparr>)
    \<and> (received_messages b0 t = Some m \<longrightarrow>
         try_get_stored_message t b0
           = (Some m, b0\<lparr>received_messages := (received_messages b0)(t := None)\<rparr>))"
proof
  have "try_read_loop msecs s b =
    Inr (s\<lparr>rx := []\<rparr>,
         b\<lparr>received_messages :=
              foldl (\<lambda>i m. i(ui_type m \<mapsto> m)) (received_messages b) [m1, m2]\<rparr>)"
    using assms by (intro try_read_loop_stream) simp_all
  with assms(1,4) show "try_read_incoming_messages msecs b
      = Inr (b\<lparr>client := Some (s\<lparr>rx := []\<rparr>),
               received_messages := (received_messages b)(ui_type m2 \<mapsto> m2)\<rparr>)"
    by (simp add: try_read_incoming_messages_def)
next
  show "received_messages b0 t = Some m \<longrightarrow>
         try_get_stored_message t b0
           = (Some m, b0\<lparr>received_messages := (received_messages b0)(t := None)\<rparr>)"
    by (simp add: try_get_stored_message_def)
qed

theorem inbox_most_recent_wins_witness:
  "try_read_incoming_messages 200
     (connected_bridge
        \<lparr>rx = encode (MsgGetObservedSymbolsResponse [[97]])
               @ encode (MsgGetObservedSymbolsResponse [[98]]),
         arriving = [], tx = []\<rparr>)
   = Inr ((connected_bridge idle_socket)
            \<lparr>received_messages :=
               [GetObservedSymbolsResponse \<mapsto> GetObservedSymbolsResponseMessage [[98]]]\<rparr>)
   \<and> try_get_stored_message GetObservedSymbolsResponse
        ((connected_bridge idle_socket)
            \<lparr>received_messages :=
               [GetObservedSymbolsResponse \<mapsto> GetObservedSymbolsResponseMessage [[98]]]\<rparr>)
     = (Some (GetObservedSymbolsResponseMessage [[98]]), connected_bridge idle_socket)"
  using inbox_most_recent_wins
    [where b = "connected_bridge
        \<lparr>rx = encode (MsgGetObservedSymbolsResponse [[97]])
               @ encode (MsgGetObservedSymbolsResponse [[98]]),
         arriving = [], tx = []\<rparr>"
      and s = "\<lparr>rx = encode (MsgGetObservedSymbolsResponse [[97]])
               @ encode (MsgGetObservedSymbolsResponse [[98]]),
         arriving = [], tx = []\<rparr>"
      and ?m1.0 = "GetObservedSymbolsResponseMessage [[97]]"
      and ?m2.0 = "GetObservedSymbolsResponseMessage [[98]]"
      and msecs = 200
      and ?b0.0 = "(connected_bridge idle_socket)
            \<lparr>received_messages :=
               [GetObservedSymbolsResponse \<mapsto> GetObservedSymbolsResponseMessage [[98]]]\<rparr>"
      and t = GetObservedSymbolsResponse
      and m = "GetObservedSymbolsResponseMessage [[98]]"]
  by (simp add: connected_bridge_def idle_socket_def new_OidBridge_def valid_strings_def
      valid_string_def)

text \<open>
  Claim C3. \<^verbatim>\<open>fetch_message\<close>: when a message of the requested type is stored, it is
  returned and removed, and nothing else of the bridge changes (the socket is not
  waited on). Otherwise \<^verbatim>\<open>try_read_incoming_messages\<close> runs once and the inbox is looked
  at again; when the message is still absent the result is "none", a normal return. On a
  connected bridge with nothing buffered and nothing arriving within the 3000 ms, that
  is what happens.
\<close>

theorem fetch_message_spec:
  "(received_messages b t = Some m \<longrightarrow>
      fetch_message t b
        = Inr (Some m, b\<lparr>received_messages := (received_messages b)(t := None)\<rparr>))
   \<and> (received_messages b t = None \<longrightarrow>
      fetch_message t b
        = (case try_read_incoming_messages 3000 b of
             Inl e \<Rightarrow> Inl e
           | Inr b' \<Rightarrow> Inr (try_get_stored_message t b')))
   \<and> (received_messages b t = None \<and> try_read_incoming_messages 3000 b = Inr b'
        \<and> received_messages b' t = None \<longrightarrow>
      fetch_message t b = Inr (None, b'))
   \<and> (received_messages b t = None \<and> client b = Some s \<and> rx s = [] \<and> quiet 3000 s \<longrightarrow>
      fetch_message t b = Inr (None, b\<lparr>client := Some (waitForReadyRead 3000 s)\<rparr>))"
  by (auto simp: fetch_message_def try_get_stored_message_def
      try_read_incoming_messages_def try_read_loop_quiet)

theorem fetch_message_spec_witness:
  "fetch_message PlotBufferRequest
     ((connected_bridge idle_socket)
        \<lparr>received_messages := [PlotBufferRequest \<mapsto> PlotBufferRequestMessage [97]]\<rparr>)
   = Inr (Some (PlotBufferRequestMessage [97]), connected_bridge idle_socket)
   \<and> fetch_message GetObservedSymbolsResponse (connected_bridge idle_socket)
     = Inr (None, connected_bridge idle_socket)"
  using fetch_message_spec
    [where b = "(connected_bridge idle_socket)
        \<lparr>received_messages := [PlotBufferRequest \<mapsto> PlotBufferRequestMessage [97]]\<rparr>"
      and t = PlotBufferRequest and m = "PlotBufferRequestMessage [97]", THEN conjunct1]
    fetch_message_spec
    [where b = "connected_bridge idle_socket" and t = GetObservedSymbolsResponse
      and s = idle_socket, THEN conjunct2, THEN conjunct2, THEN conjunct2]
  by (simp add: connected_bridge_def idle_socket_def new_OidBridge_def quiet_def
      waitForReadyRead_def)

section \<open>The event loop\<close>

text \<open>
  Claim C4. \<^verbatim>\<open>run_event_loop\<close> reads once, for at most 200 ms, and then takes plot
  requests out of the inbox until none is left, calling the host's callback once for
  each with the buffer name (as a C string). The inbox holds at most one plot request, so
  after a read that leaves the bridge in state \<open>b1\<close> the callback is called once if a
  request is stored in \<open>b1\<close> and not at all otherwise, and no request is stored
  afterwards. A second call, with nothing buffered and nothing arriving within its
  200 ms, changes nothing but the socket's clock: the callback is not called.
\<close>

theorem run_event_loop_spec:
  "(inbox_ok (received_messages b) \<and> try_read_incoming_messages 200 b = Inr b1 \<longrightarrow>
      run_event_loop b
        = Inr (b1\<lparr>received_messages := (received_messages b1)(PlotBufferRequest := None),
                 plot_calls := plot_calls b @ pending_plot_request b1\<rparr>))
   \<and> (run_event_loop b = Inr b2 \<and> client b2 = Some s2 \<and> rx s2 = [] \<and> quiet 200 s2 \<longrightarrow>
      run_event_loop b2 = Inr (b2\<lparr>client := Some (waitForReadyRead 200 s2)\<rparr>))"
proof (intro conjI impI)
  assume a: "inbox_ok (received_messages b) \<and> try_read_incoming_messages 200 b = Inr b1"
  then have "inbox_ok (received_messages b1)" and "plot_calls b1 = plot_calls b"
    using try_read_incoming_messages_inbox_ok [of 200 b b1]
      try_read_incoming_messages_frame [of 200 b b1] by simp_all
  with a show "run_event_loop b
        = Inr (b1\<lparr>received_messages := (received_messages b1)(PlotBufferRequest := None),
                 plot_calls := plot_calls b @ pending_plot_request b1\<rparr>)"
    by (simp add: run_event_loop_def drain_plot_requests_inbox_ok)
next
  assume a: "run_event_loop b = Inr b2 \<and> client b2 = Some s2 \<and> rx s2 = [] \<and> quiet 200 s2"
  then have none: "received_messages b2 PlotBufferRequest = None"
    by (auto simp: run_event_loop_def split: sum.splits dest: drain_plot_requests_leaves_none)
  from a have "try_read_incoming_messages 200 b2
      = Inr (b2\<lparr>client := Some (waitForReadyRead 200 s2)\<rparr>)"
    by (simp add: try_read_incoming_messages_def try_read_loop_quiet)
  with none show "run_event_loop b2 = Inr (b2\<lparr>client := Some (waitForReadyRead 200 s2)\<rparr>)"
    by (simp add: run_event_loop_def drain_plot_requests_none)
qed

theorem run_event_loop_spec_witness:
  "run_event_loop
     (connected_bridge \<lparr>rx = [], arriving = [(50, encode (MsgPlotBufferRequest [97]))], tx = []\<rparr>)
   = Inr ((connected_bridge idle_socket)\<lparr>plot_calls := [[97]]\<rparr>)
   \<and> run_event_loop ((connected_bridge idle_socket)\<lparr>plot_calls := [[97]]\<rparr>)
     = Inr ((connected_bridge idle_socket)\<lparr>plot_calls := [[97]]\<rparr>)"
proof -
  let ?s0 = "\<lparr>rx = [], arriving = [(50, encode (MsgPlotBufferRequest [97]))], tx = []\<rparr>"
  let ?b1 = "(connected_bridge idle_socket)
      \<lparr>received_messages := [PlotBufferRequest \<mapsto> PlotBufferRequestMessage [97]]\<rparr>"
  let ?b2 = "(connected_bridge idle_socket)\<lparr>plot_calls := [[97]]\<rparr>"
  have pump: "try_read_incoming_messages 200 (connected_bridge ?s0) = Inr ?b1"
    using try_read_incoming_messages_chunk
      [where b = "connected_bridge ?s0" and s = ?s0 and d = 50 and msecs = 200
        and ms = "[PlotBufferRequestMessage [97]]"]
    by (simp add: connected_bridge_def idle_socket_def new_OidBridge_def valid_string_def)
  have ok: "inbox_ok (received_messages (connected_bridge ?s0))"
    by (simp add: connected_bridge_def new_OidBridge_def inbox_ok_def)
  have first: "run_event_loop (connected_bridge ?s0) = Inr ?b2"
    using run_event_loop_spec [where b = "connected_bridge ?s0" and ?b1.0 = ?b1] pump ok
    by (simp add: connected_bridge_def idle_socket_def new_OidBridge_def
        pending_plot_request_def c_str_def)
  have "run_event_loop ?b2 = Inr (?b2\<lparr>client := Some (waitForReadyRead 200 idle_socket)\<rparr>)"
    using run_event_loop_spec
      [where b = "connected_bridge ?s0" and ?b2.0 = ?b2 and ?s2.0 = idle_socket] first
    by (simp add: connected_bridge_def idle_socket_def quiet_def)
  then have "run_event_loop ?b2 = Inr ?b2"
    by (simp add: connected_bridge_def idle_socket_def waitForReadyRead_def)
  with first show ?thesis
    by simp
qed

section \<open>The observed symbols\<close>

text \<open>
  Claim C5, as the source has it. With a client connected, \<^verbatim>\<open>get_observed_symbols\<close>
  writes the \<^verbatim>\<open>GetObservedSymbols\<close> request and fetches the response with the default
  wait of 3000 ms; whenever that fetch yields no response it returns the empty sequence,
  and it does so when no response is stored, nothing is buffered and nothing arrives
  within the wait. With no client (\<^verbatim>\<open>client_\<close> is null) the call does not return the
  empty sequence: the assertion at its head fails. (The last part of the theorem is the
  case of a response that is the one chunk to arrive, within the wait: its symbols are
  returned.)
\<close>

theorem get_observed_symbols_spec:
  "(client b = None \<longrightarrow> get_observed_symbols b = Inl AssertionFailed)
   \<and> (client b = Some s
        \<and> fetch_message GetObservedSymbolsResponse
             (b\<lparr>client := Some (send compose_get_observed_symbols s)\<rparr>) = Inr (None, b')
        \<longrightarrow> get_observed_symbols b = Inr ([], b'))
   \<and> (client b = Some s \<and> received_messages b GetObservedSymbolsResponse = None
        \<and> rx s = [] \<and> quiet 3000 s \<longrightarrow>
      get_observed_symbols b
        = Inr ([], b\<lparr>client := Some (waitForReadyRead 3000 (send compose_get_observed_symbols s))\<rparr>))
   \<and> (client b = Some s \<and> received_messages b GetObservedSymbolsResponse = None
        \<and> rx s = [] \<and> arriving s = [(d, encode (MsgGetObservedSymbolsResponse xs))]
        \<and> d \<le> 3000 \<and> valid_strings xs \<longrightarrow>
      get_observed_symbols b
        = Inr (xs, b\<lparr>client := Some (s\<lparr>rx := [], arriving := [],
                                          tx := tx s @ compose_get_observed_symbols\<rparr>)\<rparr>))"
proof (intro conjI impI)
  assume "client b = None"
  then show "get_observed_symbols b = Inl AssertionFailed"
    by (simp add: get_observed_symbols_def)
next
  assume "client b = Some s
        \<and> fetch_message GetObservedSymbolsResponse
             (b\<lparr>client := Some (send compose_get_observed_symbols s)\<rparr>) = Inr (None, b')"
  then show "get_observed_symbols b = Inr ([], b')"
    by (simp add: get_observed_symbols_def)
next
  assume a: "client b = Some s \<and> received_messages b GetObservedSymbolsResponse = None
        \<and> rx s = [] \<and> quiet 3000 s"
  let ?s1 = "send compose_get_observed_symbols s"
  from a have "rx ?s1 = []" and "quiet 3000 ?s1"
    by (simp_all add: send_def quiet_def)
  then have "try_read_loop 3000 ?s1 (b\<lparr>client := Some ?s1\<rparr>)
      = Inr (waitForReadyRead 3000 ?s1, b\<lparr>client := Some ?s1\<rparr>)"
    by (rule try_read_loop_quiet)
  with a show "get_observed_symbols b = Inr ([], b\<lparr>client := Some (waitForReadyRead 3000 ?s1)\<rparr>)"
    by (simp add: get_observed_symbols_def fetch_message_def try_get_stored_message_def
        try_read_incoming_messages_def)
next
  assume a: "client b = Some s \<and> received_messages b GetObservedSymbolsResponse = None
        \<and> rx s = [] \<and> arriving s = [(d, encode (MsgGetObservedSymbolsResponse xs))]
        \<and> d \<le> 3000 \<and> valid_strings xs"
  let ?s1 = "send compose_get_observed_symbols s"
  let ?b1 = "b\<lparr>client := Some ?s1\<rparr>"
  have "try_read_incoming_messages 3000 ?b1 =
    Inr (?b1\<lparr>client := Some (?s1\<lparr>rx := [], arriving := []\<rparr>),
           received_messages := foldl (\<lambda>i m. i(ui_type m \<mapsto> m)) (received_messages ?b1)
              [GetObservedSymbolsResponseMessage xs]\<rparr>)"
    using a by (intro try_read_incoming_messages_chunk [where d = d]) (simp_all add: send_def)
  with a show "get_observed_symbols b
        = Inr (xs, b\<lparr>client := Some (s\<lparr>rx := [], arriving := [],
                                          tx := tx s @ compose_get_observed_symbols\<rparr>)\<rparr>)"
    by (simp add: get_observed_symbols_def fetch_message_def try_get_stored_message_def
        send_def fun_upd_idem)
qed

theorem get_observed_symbols_spec_witness:
  "get_observed_symbols (connected_bridge idle_socket)
   = Inr ([], connected_bridge (idle_socket\<lparr>tx := compose_get_observed_symbols\<rparr>))
   \<and> get_observed_symbols
       (connected_bridge
          \<lparr>rx = [], arriving = [(100, encode (MsgGetObservedSymbolsResponse [[97], [98]]))],
           tx = []\<rparr>)
     = Inr ([[97], [98]], connected_bridge (idle_socket\<lparr>tx := compose_get_observed_symbols\<rparr>))"
  using get_observed_symbols_spec
    [where b = "connected_bridge idle_socket" and s = idle_socket,
      THEN conjunct2, THEN conjunct2, THEN conjunct1]
    get_observed_symbols_spec
    [where b = "connected_bridge
          \<lparr>rx = [], arriving = [(100, encode (MsgGetObservedSymbolsResponse [[97], [98]]))],
           tx = []\<rparr>"
      and s = "\<lparr>rx = [], arriving = [(100, encode (MsgGetObservedSymbolsResponse [[97], [98]]))],
           tx = []\<rparr>"
      and d = 100 and xs = "[[97], [98]]",
      THEN conjunct2, THEN conjunct2, THEN conjunct2]
  by (simp add: connected_bridge_def idle_socket_def new_OidBridge_def quiet_def
      waitForReadyRead_def send_def valid_strings_def valid_string_def)

text \<open>
  Claim C5 as it was stated fails on a bridge that was never started: there is no
  connection, and the result is the failed assertion, not the empty sequence.
\<close>

theorem get_observed_symbols_unconnected:
  "get_observed_symbols new_OidBridge = Inl AssertionFailed"
  by (simp add: get_observed_symbols_def new_OidBridge_def)

section \<open>Readiness and start\<close>

text \<open>
  Claim C6, as the source has it. \<^verbatim>\<open>is_window_ready\<close> is true exactly when the client
  is connected and the UI process is running, where connected means what the source
  tests: \<^verbatim>\<open>client_\<close> is not null (the socket is not asked for its state). It is false on a
  new bridge. After a \<^verbatim>\<open>start\<close> that returned false it is false, with one exception: a
  \<^verbatim>\<open>start\<close> that fails to bind returns before it touches the client or the process, so a
  bridge that was ready stays ready. After a \<^verbatim>\<open>start\<close> that returned true it is true
  exactly when the spawn succeeded. It is a function of the bridge's state alone (a
  \<^verbatim>\<open>const\<close> member): it returns a truth value and leaves the bridge, the socket and the
  process as they are.
\<close>

theorem is_window_ready_spec:
  "is_window_ready b = (client b \<noteq> None \<and> isRunning (ui_proc b))
   \<and> \<not> is_window_ready new_OidBridge
   \<and> (\<not> fst (start env b) \<longrightarrow>
        is_window_ready (snd (start env b)) = (\<not> can_bind env \<and> is_window_ready b))
   \<and> (fst (start env b) \<longrightarrow> is_window_ready (snd (start env b)) = can_spawn env)"
  by (auto simp: is_window_ready_def new_OidBridge_def start_def wait_for_client_def Let_def
      isRunning_def Process_start_def)

theorem is_window_ready_spec_witness:
  "\<not> is_window_ready
       (snd (start \<lparr>can_bind = False, bound_port = 0, can_spawn = True, connecting = None\<rparr>
               new_OidBridge))
   \<and> \<not> is_window_ready
       (snd (start \<lparr>can_bind = True, bound_port = 4000, can_spawn = True,
                    connecting = Some (20000, idle_socket)\<rparr> new_OidBridge))
   \<and> is_window_ready
       (snd (start \<lparr>can_bind = True, bound_port = 4000, can_spawn = True,
                    connecting = Some (10, idle_socket)\<rparr> new_OidBridge))"
  using is_window_ready_spec
    [where b = new_OidBridge
      and env = "\<lparr>can_bind = False, bound_port = 0, can_spawn = True, connecting = None\<rparr>"]
    is_window_ready_spec
    [where b = new_OidBridge
      and env = "\<lparr>can_bind = True, bound_port = 4000, can_spawn = True,
                    connecting = Some (20000, idle_socket)\<rparr>"]
    is_window_ready_spec
    [where b = new_OidBridge
      and env = "\<lparr>can_bind = True, bound_port = 4000, can_spawn = True,
                    connecting = Some (10, idle_socket)\<rparr>"]
  by (simp add: start_def wait_for_client_def Let_def new_OidBridge_def
      waitForNewConnection_def nextPendingConnection_def)

text \<open>
  Claim C6 as it was stated fails for a second \<^verbatim>\<open>start\<close> on a bridge that is ready: the
  first \<^verbatim>\<open>start\<close> succeeds, the second cannot bind and returns false, and
  \<^verbatim>\<open>is_window_ready\<close> is still true.
\<close>

theorem is_window_ready_after_failed_rebind:
  "fst (start \<lparr>can_bind = True, bound_port = 4000, can_spawn = True,
               connecting = Some (10, idle_socket)\<rparr> new_OidBridge)
   \<and> \<not> fst (start \<lparr>can_bind = False, bound_port = 0, can_spawn = True, connecting = None\<rparr>
          (snd (start \<lparr>can_bind = True, bound_port = 4000, can_spawn = True,
                       connecting = Some (10, idle_socket)\<rparr> new_OidBridge)))
   \<and> is_window_ready
        (snd (start \<lparr>can_bind = False, bound_port = 0, can_spawn = True, connecting = None\<rparr>
          (snd (start \<lparr>can_bind = True, bound_port = 4000, can_spawn = True,
                       connecting = Some (10, idle_socket)\<rparr> new_OidBridge))))"
  by (simp add: start_def wait_for_client_def Let_def new_OidBridge_def is_window_ready_def
      isRunning_def Process_start_def waitForNewConnection_def nextPendingConnection_def)

text \<open>
  Claim C7, as the source has it. \<^verbatim>\<open>start\<close> returns false when the server cannot bind,
  and then nothing is spawned and only the error line is written; on a bridge without a
  client it returns false when no peer connects within the one wait of 10 s, which
  covers a failed spawn and a connection timeout (the result of the spawn itself is not
  looked at); there is no second attempt. When the
  server could bind, the result says whether a client is connected, and the UI process is
  left as the spawn left it: after a connection timeout \<^verbatim>\<open>start\<close> returns false and the
  spawned process keeps running until the destructor kills it.
\<close>

theorem start_spec:
  "(\<not> can_bind env \<longrightarrow>
      start env b
        = (False, b\<lparr>cerr := cerr b @ [''[OpenImageDebugger] Could not start TCP server'']\<rparr>))
   \<and> (client b = None \<and> \<not> waitForNewConnection 10000 env \<longrightarrow> \<not> fst (start env b))
   \<and> (can_bind env \<longrightarrow>
        fst (start env b) = (client (snd (start env b)) \<noteq> None)
        \<and> isRunning (ui_proc (snd (start env b))) = can_spawn env)"
  by (auto simp: start_def wait_for_client_def Let_def isRunning_def Process_start_def
      waitForNewConnection_def nextPendingConnection_def split: option.splits)

theorem start_spec_witness:
  "start \<lparr>can_bind = False, bound_port = 0, can_spawn = True, connecting = None\<rparr> new_OidBridge
   = (False, new_OidBridge\<lparr>cerr := [''[OpenImageDebugger] Could not start TCP server'']\<rparr>)
   \<and> \<not> fst (start \<lparr>can_bind = True, bound_port = 4000, can_spawn = False,
                     connecting = Some (20000, idle_socket)\<rparr> new_OidBridge)
   \<and> \<not> isRunning (ui_proc (snd (start \<lparr>can_bind = True, bound_port = 4000, can_spawn = False,
                                        connecting = Some (20000, idle_socket)\<rparr> new_OidBridge)))"
  using start_spec
    [where b = new_OidBridge
      and env = "\<lparr>can_bind = False, bound_port = 0, can_spawn = True, connecting = None\<rparr>"]
    start_spec
    [where b = new_OidBridge
      and env = "\<lparr>can_bind = True, bound_port = 4000, can_spawn = False,
                     connecting = Some (20000, idle_socket)\<rparr>"]
  by (simp add: new_OidBridge_def waitForNewConnection_def)

text \<open>
  Claim C7 as it was stated fails after a connection timeout: the server binds, the
  process is spawned, no peer connects; \<^verbatim>\<open>start\<close> returns false and the process runs.
\<close>

theorem start_false_leaves_process_running:
  "\<not> fst (start \<lparr>can_bind = True, bound_port = 4000, can_spawn = True, connecting = None\<rparr>
             new_OidBridge)
   \<and> isRunning (ui_proc (snd (start \<lparr>can_bind = True, bound_port = 4000, can_spawn = True,
                                      connecting = None\<rparr> new_OidBridge)))"
  by (simp add: start_def wait_for_client_def Let_def isRunning_def Process_start_def
      waitForNewConnection_def nextPendingConnection_def new_OidBridge_def)

section \<open>Unknown headers\<close>




section \<open>The boundary\<close>

text \<open>
  Claim C9 at an input where the product of the dimensions does not fit an \<^verbatim>\<open>int\<close>:
  row stride 65536, height 65536, one channel, and a buffer of one byte. The product
  wraps to 0, the expected size is 0 whatever the element size is, the one-byte buffer
  passes the test and the message is written to the socket. (Inside the range of
  \<^verbatim>\<open>int\<close> the test does reject every buffer that is too short:
  \<open>send_buffer_contents_rejects_short\<close>, and \<open>oid_plot_buffer_example_479\<close> for the
  479 bytes against the 480 of the spec's example.)
\<close>

theorem oid_plot_buffer_overflow_sends:
  "oid_plot_buffer type_size
     (Some (new_OidBridge\<lparr>client := Some \<lparr>rx = [], arriving = [], tx = []\<rparr>\<rparr>))
     (PyDict [(''variable_name'', PyStr [97]), (''display_name'', PyStr [97]),
              (''pointer'', PyMemoryView (Some [0])), (''width'', PyLong 65536),
              (''height'', PyLong 65536), (''channels'', PyLong 1), (''type'', PyLong 0),
              (''row_stride'', PyLong 65536), (''pixel_layout'', PyStr [114, 103, 98, 97])])
   = Inr \<lparr>raised = None, returned = (),
          app = Some (new_OidBridge\<lparr>client := Some \<lparr>rx = [], arriving = [],
                  tx = compose_plot_buffer
                         \<lparr>variable_name_str = [97], display_name_str = [97],
                          pixel_layout_str = [114, 103, 98, 97], transpose_buffer = False,
                          buff_width = 65536, buff_height = 65536, buff_channels = 1,
                          buff_stride = 65536, buff_type = 0, buff = [0]\<rparr>\<rparr>\<rparr>)\<rparr>"
  by (simp add: oid_plot_buffer_def field_provided_def field_type_def fields_provided_def
      fields_typed_def PyDict_GetItemString_def send_buffer_contents_def
      buff_size_expected_def field_int_def field_string_def plot_buffer_def send_def
      new_OidBridge_def)

text \<open>
  Claim C10, as the source has it. Given a null handle, each exported function that takes
  a handle raises a Python error, returns its neutral value (0 for
  \<^verbatim>\<open>oid_is_window_ready\<close>, a null pointer for \<^verbatim>\<open>oid_get_observed_buffers\<close>) and touches
  no bridge. For \<^verbatim>\<open>oid_set_available_symbols\<close> this holds when its second argument is a
  list: the function asserts that before it looks at the handle.
\<close>

theorem null_handle_is_rejected:
  "oid_exec env None = Inr \<lparr>raised = Some PyExc_RuntimeError, returned = (), app = None\<rparr>
   \<and> oid_cleanup None = Inr \<lparr>raised = Some PyExc_RuntimeError, returned = None, app = None\<rparr>
   \<and> oid_is_window_ready None
       = Inr \<lparr>raised = Some PyExc_RuntimeError, returned = 0, app = None\<rparr>
   \<and> oid_run_event_loop None
       = Inr \<lparr>raised = Some PyExc_RuntimeError, returned = (), app = None\<rparr>
   \<and> oid_plot_buffer type_size None buffer_metadata
       = Inr \<lparr>raised = Some PyExc_RuntimeError, returned = (), app = None\<rparr>
   \<and> (PyList_Check available_vars \<longrightarrow>
        oid_set_available_symbols None available_vars
          = Inr \<lparr>raised = Some PyExc_RuntimeError, returned = (), app = None\<rparr>)
   \<and> oid_get_observed_buffers None
       = Inr \<lparr>raised = Some PyExc_Exception, returned = None, app = None\<rparr>"
  by (cases available_vars)
    (simp_all add: oid_exec_def oid_cleanup_def oid_is_window_ready_def oid_run_event_loop_def
      oid_plot_buffer_def oid_set_available_symbols_def oid_get_observed_buffers_def raise_def)

theorem null_handle_is_rejected_witness:
  "oid_set_available_symbols None (PyList [PyStr [97], PyStr [98]])
   = Inr \<lparr>raised = Some PyExc_RuntimeError, returned = (), app = None\<rparr>
   \<and> oid_plot_buffer (\<lambda>ty. 1) None PyNone
     = Inr \<lparr>raised = Some PyExc_RuntimeError, returned = (), app = None\<rparr>"
  using null_handle_is_rejected
    [where available_vars = "PyList [PyStr [97], PyStr [98]]" and type_size = "\<lambda>ty. 1"
      and buffer_metadata = PyNone
      and env = "\<lparr>can_bind = True, bound_port = 0, can_spawn = True, connecting = None\<rparr>"]
  by simp

text \<open>
  Claim C10 as it was stated fails for \<^verbatim>\<open>oid_set_available_symbols\<close> with a null handle
  and a second argument that is no list: the assertion fails before the handle is
  looked at, and no Python error is raised.
\<close>

theorem null_handle_before_list_assertion:
  "oid_set_available_symbols None PyNone = Inl AssertionFailed"
  by (simp add: oid_set_available_symbols_def)

end
